theory Spec2Isabelle
  imports Main "HOL-Library.Monad_Syntax"
begin

text \<open>
  A verification of the CV application: the projection of the resume record to the
  GraphQL types, the list sections of the page, the GraphQL route and the command
  palette. The TypeScript modelled here is the one the repository's beginner's guide
  gives file by file (steps 3.1, 6.2, 7.1 to 7.3 and 9.1); each section names the file.
\<close>

section \<open>Data model (src/lib/types.ts)\<close>

text \<open>
  \<open>ReactNode\<close> is what a component may return or receive as a child: a string, a
  number, a boolean, \<open>null\<close>, \<open>undefined\<close>, an element, or an array of nodes. An
  element carries its tag, its props as written in the JSX (name, value) and its
  children. Numbers are carried as integers; nothing below computes with them.
\<close>

datatype ReactNode =
    Text string
  | Number int
  | Boolean bool
  | Null
  | Undefined
  | Element string "(string \<times> string) list" "ReactNode list"
  | Array "ReactNode list"

text \<open>An optional property (\<open>link?: string\<close>) is \<open>None\<close> when it is absent.\<close>

record Social =
  name :: string
  url :: string
  icon :: ReactNode
  navbar :: "bool option"

record Contact =
  email :: string
  tel :: string
  social :: "Social list"

record Work =
  company :: string
  title :: string
  logo :: "ReactNode option"
  start :: string
  "end" :: string
  description :: string
  link :: "string option"
  badges :: "string list option"

record Education =
  school :: string
  degree :: string
  start :: string
  "end" :: string
  link :: "string option"

record ProjectLink =
  "type" :: string
  href :: string
  icon :: ReactNode

record Project =
  title :: string
  href :: "string option"
  dates :: string
  active :: bool
  description :: string
  technologies :: "string list"
  links :: "ProjectLink list"
  image :: "string option"
  video :: "string option"

record ResumeData =
  name :: string
  initials :: string
  location :: string
  locationLink :: string
  about :: string
  summary :: ReactNode
  avatarUrl :: string
  personalWebsiteUrl :: string
  contact :: Contact
  education :: "Education list"
  work :: "Work list"
  skills :: "string list"
  projects :: "Project list"

section \<open>Wire types (src/apollo/type-defs.ts)\<close>

text \<open>
  The classes of \<open>type-defs.ts\<close> have the names of the interfaces of \<open>types.ts\<close>;
  here they carry the suffix \<open>_gql\<close>. \<open>Link\<close> and \<open>Me\<close> exist on the wire side only.
\<close>

record Social_gql =
  name :: string
  url :: string
  navbar :: "bool option"

record Contact_gql =
  email :: string
  tel :: string
  social :: "Social_gql list"

record Work_gql =
  company :: string
  title :: string
  start :: string
  "end" :: string
  description :: string
  link :: "string option"
  badges :: "string list option"

record Education_gql =
  school :: string
  degree :: string
  start :: string
  "end" :: string
  link :: "string option"

record Link =
  "type" :: string
  href :: string

record Project_gql =
  title :: string
  href :: "string option"
  dates :: string
  active :: bool
  description :: string
  technologies :: "string list"
  links :: "Link list"
  image :: "string option"
  video :: "string option"

record Me =
  name :: string
  initials :: string
  location :: string
  locationLink :: string
  about :: string
  summary :: string
  avatarUrl :: string
  personalWebsiteUrl :: string
  contact :: Contact_gql
  education :: "Education_gql list"
  work :: "Work_gql list"
  skills :: "string list"
  projects :: "Project_gql list"

section \<open>The projection to the wire (src/apollo/resolvers.ts)\<close>

text \<open>
  \<open>reactNodeToString\<close> returns a string argument as it is and the placeholder for
  anything else.
\<close>

fun reactNodeToString :: "ReactNode \<Rightarrow> string" where
  "reactNodeToString (Text s) = s"
| "reactNodeToString node = ''[React Component]''"

text \<open>JavaScript's \<open>typeof\<close> on a node (an element, an array and \<open>null\<close> are objects).\<close>

fun typeof :: "ReactNode \<Rightarrow> string" where
  "typeof (Text s) = ''string''"
| "typeof (Number n) = ''number''"
| "typeof (Boolean b) = ''boolean''"
| "typeof Undefined = ''undefined''"
| "typeof node = ''object''"

text \<open>A node that \<open>typeof\<close> has found to be a string, read as one.\<close>

fun string_of :: "ReactNode \<Rightarrow> string" where
  "string_of (Text s) = s"
| "string_of node = []"

text \<open>
  \<open>Array.from\<close> on an array is a copy with the same elements in the same order; on
  values the copy is the list itself. \<open>w.badges ? Array.from(w.badges) : undefined\<close>
  takes the first branch for every array, the empty one too.
\<close>

definition Array_from :: "'a list \<Rightarrow> 'a list" where
  "Array_from xs = map (\<lambda>x. x) xs"

definition resumeDataToGraphQL :: "ResumeData \<Rightarrow> Me" where
  "resumeDataToGraphQL data =
     \<lparr>Me.name = ResumeData.name data,
      initials = ResumeData.initials data,
      location = ResumeData.location data,
      locationLink = ResumeData.locationLink data,
      about = ResumeData.about data,
      summary =
        (if typeof (ResumeData.summary data) = ''string''
         then string_of (ResumeData.summary data)
         else reactNodeToString (ResumeData.summary data)),
      avatarUrl = ResumeData.avatarUrl data,
      personalWebsiteUrl = ResumeData.personalWebsiteUrl data,
      contact =
        \<lparr>Contact_gql.email = Contact.email (ResumeData.contact data),
         tel = Contact.tel (ResumeData.contact data),
         social =
           map (\<lambda>s. \<lparr>Social_gql.name = Social.name s,
                       url = Social.url s,
                       navbar = Social.navbar s\<rparr>)
             (Contact.social (ResumeData.contact data))\<rparr>,
      education =
        map (\<lambda>edu. \<lparr>Education_gql.school = Education.school edu,
                      degree = Education.degree edu,
                      start = Education.start edu,
                      end = Education.end edu,
                      link = Education.link edu\<rparr>)
          (ResumeData.education data),
      work =
        map (\<lambda>w. \<lparr>Work_gql.company = Work.company w,
                    title = Work.title w,
                    start = Work.start w,
                    end = Work.end w,
                    description = Work.description w,
                    link = Work.link w,
                    badges = (case Work.badges w of
                                Some bs \<Rightarrow> Some (Array_from bs)
                              | None \<Rightarrow> None)\<rparr>)
          (ResumeData.work data),
      skills = Array_from (ResumeData.skills data),
      projects =
        map (\<lambda>p. \<lparr>Project_gql.title = Project.title p,
                    href = Project.href p,
                    dates = Project.dates p,
                    active = Project.active p,
                    description = Project.description p,
                    technologies = Array_from (Project.technologies p),
                    links =
                      map (\<lambda>link. \<lparr>Link.type = ProjectLink.type link,
                                     href = ProjectLink.href link\<rparr>)
                        (Project.links p),
                    image = Project.image p,
                    video = Project.video p\<rparr>)
          (ResumeData.projects data)\<rparr>"

section \<open>A sample record\<close>

text \<open>
  A record of the \<open>ResumeData\<close> interface for the concrete instances below. The
  identity fields, the contact block and the education list are those of
  \<open>src/data/resume-data.tsx\<close>, with the summary cut short; of its work entries and
  skills it has the first entry (description cut short) and two skills. The project
  is the one of the guide's own data: the project entries of \<open>resume-data.tsx\<close> have
  the properties \<open>techStack\<close> and \<open>link\<close>, not the \<open>technologies\<close> and \<open>links\<close>
  of the interface above.
\<close>

definition sample_resume :: ResumeData where
  "sample_resume =
     \<lparr>ResumeData.name = ''Ban Nguyen'',
      initials = ''BN'',
      location = ''Ho Chi Minh City, Viet Nam'',
      locationLink = ''https://www.google.com/maps/place/Ho+Chi+Minh+City'',
      about = ''Product Manager'',
      summary = Text ''Product Manager with a strategic marketing foundation.'',
      avatarUrl = ''https://angi.truanay.com/images/photo-2-square.jpg'',
      personalWebsiteUrl = ''https://ducban.com'',
      contact =
        \<lparr>Contact.email = ''nguyenducban@me.com'',
         tel = ''+84983472120'',
         social =
           [\<lparr>Social.name = ''GitHub'', url = ''https://github.com/ban-nguyen'',
             icon = Text ''github'', navbar = None\<rparr>,
            \<lparr>Social.name = ''LinkedIn'', url = ''https://www.linkedin.com/in/ban-nguyen/'',
             icon = Text ''linkedin'', navbar = None\<rparr>]\<rparr>,
      education =
        [\<lparr>Education.school = ''Swiss International University'',
          degree = ''Bachelor's Degree, Marketing'',
          start = ''2016'', end = ''2018'', link = None\<rparr>,
         \<lparr>Education.school = ''Tay Nguyen University'',
          degree = ''Bachelor's Degree, Faculty of Agriculture and Forestry'',
          start = ''1997'', end = ''2001'', link = None\<rparr>],
      work =
        [\<lparr>Work.company = ''MoMo (M_Service)'',
          title = ''Product Management - Team Leader'',
          logo = None,
          start = ''2024'', end = ''Present'',
          description = ''Led product strategy for MoMo Travel.'',
          link = Some ''https://momo.vn/'',
          badges = Some [''AI'', ''Fintech'', ''Travel'']\<rparr>],
      skills = [''Applied AI & Automation'', ''Agile & Scrum Methodologies''],
      projects =
        [\<lparr>Project.title = ''Project Alpha'',
          href = Some ''https://projectalpha.com'',
          dates = ''Jan 2023 - Present'',
          active = True,
          description = ''A platform that helps developers find remote jobs.'',
          technologies = [''Next.js'', ''TypeScript''],
          links =
            [\<lparr>ProjectLink.type = ''Website'', href = ''https://projectalpha.com'',
              icon = Element ''Globe'' [(''className'', ''size-3'')] []\<rparr>],
          image = Some ''/projects/alpha.png'',
          video = None\<rparr>]\<rparr>"

section \<open>Section renderers (src/app/page.tsx)\<close>

text \<open>
  \<open>Page\<close> writes each list section inline; each is a function of its list here. A
  JSX child \<open>{xs.map(f)}\<close> is one child, the array of the elements \<open>f\<close> returns;
  \<open>{c ? a : null}\<close> is the child \<open>a\<close> or the child \<open>null\<close>, and \<open>{c && a}\<close> is
  \<open>a\<close> or \<open>false\<close>. The condition on an optional string holds when the string is
  present and not empty, the condition on an optional array whenever it is present.
\<close>

definition work_card :: "Work \<Rightarrow> ReactNode" where
  "work_card = (\<lambda>work.
     Element ''Card'' [(''key'', Work.company work)]
       [Element ''CardHeader'' []
          [Element ''div'' [(''className'', ''flex items-center justify-between gap-x-2 text-base'')]
             [Element ''h3''
                [(''className'',
                  ''inline-flex items-center justify-center gap-x-1 font-semibold leading-none'')]
                [case Work.link work of
                   None \<Rightarrow> Text (Work.company work)
                 | Some target \<Rightarrow>
                     if target \<noteq> []
                     then Element ''a'' [(''className'', ''hover:underline''), (''href'', target)]
                            [Text (Work.company work)]
                     else Text (Work.company work)],
              Element ''div'' [(''className'', ''text-sm tabular-nums text-gray-500'')]
                [Text (Work.start work), Text '' - '', Text (Work.end work)]],
           Element ''h4'' [(''className'', ''font-mono text-sm leading-none'')]
             [Text (Work.title work)]],
        Element ''CardContent'' [(''className'', ''mt-2 text-xs print:text-[10px]'')]
          [Text (Work.description work),
           (case Work.badges work of
              Some bs \<Rightarrow>
                Element ''div'' [(''className'', ''mt-2 flex flex-wrap gap-1'')]
                  [Array (map (\<lambda>badge.
                     Element ''Badge''
                       [(''key'', badge),
                        (''className'', ''print:px-1 print:py-0.5 print:text-[8px]''),
                        (''variant'', ''secondary'')]
                       [Text badge]) bs)]
            | None \<Rightarrow> Null)]])"

definition work_section :: "Work list \<Rightarrow> ReactNode" where
  "work_section ws =
     Element ''section'' [(''className'', ''flex min-h-0 flex-col gap-y-3'')]
       [Element ''h2'' [(''className'', ''text-xl font-bold'')] [Text ''Work Experience''],
        Array (map work_card ws)]"

definition education_card :: "Education \<Rightarrow> ReactNode" where
  "education_card = (\<lambda>education.
     Element ''Card'' [(''key'', Education.school education)]
       [Element ''CardHeader'' []
          [Element ''div'' [(''className'', ''flex items-center justify-between gap-x-2 text-base'')]
             [Element ''h3'' [(''className'', ''font-semibold leading-none'')]
                [case Education.link education of
                   None \<Rightarrow> Text (Education.school education)
                 | Some target \<Rightarrow>
                     if target \<noteq> []
                     then Element ''a'' [(''href'', target), (''className'', ''hover:underline'')]
                            [Text (Education.school education)]
                     else Text (Education.school education)],
              Element ''div'' [(''className'', ''text-sm tabular-nums text-gray-500'')]
                [Text (Education.start education), Text '' - '',
                 Text (Education.end education)]]],
        Element ''CardContent'' [(''className'', ''mt-2 print:text-[10px]'')]
          [Text (Education.degree education)]])"

definition education_section :: "Education list \<Rightarrow> ReactNode" where
  "education_section es =
     Element ''section'' [(''className'', ''flex min-h-0 flex-col gap-y-3'')]
       [Element ''h2'' [(''className'', ''text-xl font-bold'')] [Text ''Education''],
        Array (map education_card es)]"

definition skill_badge :: "string \<Rightarrow> ReactNode" where
  "skill_badge skill =
     Element ''Badge'' [(''key'', skill), (''className'', ''print:text-[10px]'')] [Text skill]"

definition skills_section :: "string list \<Rightarrow> ReactNode" where
  "skills_section ss =
     Element ''section'' [(''className'', ''flex min-h-0 flex-col gap-y-3'')]
       [Element ''h2'' [(''className'', ''text-xl font-bold'')] [Text ''Skills''],
        Element ''div'' [(''className'', ''flex flex-wrap gap-1'')]
          [Array (map skill_badge ss)]]"

definition project_card :: "Project \<Rightarrow> ReactNode" where
  "project_card = (\<lambda>project.
     Element ''Card''
       [(''key'', Project.title project), (''className'', ''flex flex-col overflow-hidden border'')]
       [Element ''CardHeader'' [(''className'', ''px-2'')]
          [Element ''div'' [(''className'', ''space-y-1'')]
             [Element ''div'' [(''className'', ''flex items-center justify-between'')]
                [Element ''h3''
                   [(''className'', ''inline-flex items-center gap-1 font-semibold text-base'')]
                   [case Project.href project of
                      None \<Rightarrow> Text (Project.title project)
                    | Some target \<Rightarrow>
                        if target \<noteq> []
                        then Element ''a'' [(''href'', target), (''className'', ''hover:underline'')]
                               [Text (Project.title project)]
                        else Text (Project.title project),
                    if Project.active project
                    then Element ''span'' [(''className'', ''inline-flex gap-x-1'')]
                           [Element ''span'' [(''className'', ''relative flex size-2'')]
                              [Element ''span''
                                 [(''className'',
                                   ''absolute inline-flex h-full w-full animate-ping rounded-full bg-green-400 opacity-75'')]
                                 [],
                               Element ''span''
                                 [(''className'',
                                   ''relative inline-flex size-2 rounded-full bg-green-500'')]
                                 []]]
                    else Boolean False],
                 Element ''div'' [(''className'', ''text-xs text-muted-foreground'')]
                   [Text (Project.dates project)]],
              Element ''p'' [(''className'', ''text-xs text-muted-foreground print:text-[10px]'')]
                [Text (Project.description project)]]],
        Element ''CardContent'' [(''className'', ''mt-auto px-2 pb-2'')]
          [Element ''div'' [(''className'', ''mt-2 flex flex-wrap gap-1'')]
             [Array (map (\<lambda>tech.
                Element ''Badge''
                  [(''key'', tech), (''className'', ''px-1 py-0 text-[10px]''),
                   (''variant'', ''secondary'')]
                  [Text tech]) (Project.technologies project))]]])"

definition projects_section :: "Project list \<Rightarrow> ReactNode" where
  "projects_section ps =
     Element ''section''
       [(''className'', ''flex min-h-0 flex-col gap-y-3 print-force-new-page'')]
       [Element ''h2'' [(''className'', ''text-xl font-bold'')] [Text ''Projects''],
        Element ''div''
          [(''className'',
            ''-mx-3 grid grid-cols-1 gap-3 print:grid-cols-2 print:gap-2 md:grid-cols-2 lg:grid-cols-3'')]
          [Array (map project_card ps)]]"

text \<open>
  The blocks of a tag in a piece of markup: the outermost elements with that tag, in
  document order, looking through arrays and through elements of other tags.
\<close>

fun blocks :: "string \<Rightarrow> ReactNode \<Rightarrow> ReactNode list" where
  "blocks t (Element tag props children) =
     (if tag = t then [Element tag props children] else concat (map (blocks t) children))"
| "blocks t (Array nodes) = concat (map (blocks t) nodes)"
| "blocks t node = []"

section \<open>The Read API route (src/app/graphql/route.ts)\<close>

text \<open>
  The module builds the schema once, when it is loaded, and hands every request to the
  handler of the server it created:
  \<^verbatim>\<open>
  let schema: any;
  try {
    schema = await buildSchema({ resolvers: [MeResolver], validate: false });
  } catch (error) {
    console.error("Failed to build GraphQL schema:", error);
    schema = await buildSchema({ resolvers: [], validate: false });
  }
  const server = new ApolloServer({ schema, introspection: ..., ... });
  \<close>
  \<open>buildSchema\<close> and the server belong to libraries; the route takes them as the
  parameters \<open>build\<close> and \<open>serve\<close>. A failed build is \<open>Inl\<close>. The second build stands
  in the \<open>catch\<close> block with no handler of its own, so its failure leaves the module.
\<close>

datatype resolver = MeResolver

record 'sch ApolloServer =
  schema :: 'sch
  introspection :: bool
  includeStacktraceInErrorResponses :: bool

definition route_schema :: "(resolver list \<Rightarrow> 'e + 'sch) \<Rightarrow> string list \<times> ('e + 'sch)" where
  "route_schema build =
     (case build [MeResolver] of
        Inr sch \<Rightarrow> ([], Inr sch)
      | Inl error \<Rightarrow> ([''Failed to build GraphQL schema:''], build []))"

definition route_server ::
  "bool \<Rightarrow> (resolver list \<Rightarrow> 'e + 'sch) \<Rightarrow> 'e + 'sch ApolloServer" where
  "route_server production build =
     (case snd (route_schema build) of
        Inl error \<Rightarrow> Inl error
      | Inr sch \<Rightarrow>
          Inr \<lparr>schema = sch,
               introspection = (\<not> production),
               includeStacktraceInErrorResponses = (\<not> production)\<rparr>)"

definition handler ::
  "bool \<Rightarrow> (resolver list \<Rightarrow> 'e + 'sch) \<Rightarrow> ('sch ApolloServer \<Rightarrow> 'req \<Rightarrow> 'resp)
   \<Rightarrow> 'req \<Rightarrow> 'e + 'resp" where
  "handler production build serve request =
     (case route_server production build of
        Inl error \<Rightarrow> Inl error
      | Inr server \<Rightarrow> Inr (serve server request))"

definition GET ::
  "bool \<Rightarrow> (resolver list \<Rightarrow> 'e + 'sch) \<Rightarrow> ('sch ApolloServer \<Rightarrow> 'req \<Rightarrow> 'resp)
   \<Rightarrow> 'req \<Rightarrow> 'e + 'resp" where
  "GET production build serve request = handler production build serve request"

definition POST ::
  "bool \<Rightarrow> (resolver list \<Rightarrow> 'e + 'sch) \<Rightarrow> ('sch ApolloServer \<Rightarrow> 'req \<Rightarrow> 'resp)
   \<Rightarrow> 'req \<Rightarrow> 'e + 'resp" where
  "POST production build serve request = handler production build serve request"

section \<open>Command palette (src/components/command-menu.tsx)\<close>

text \<open>
  The component keeps one piece of state, \<open>const [open, setOpen] = useState(false)\<close>.
  Everything else it does goes to the browser: \<open>e.preventDefault()\<close>,
  \<open>window.print()\<close>, \<open>window.scrollTo\<close> and \<open>window.open\<close>. The model carries the
  boolean and the trace of browser calls, in the order they are made.
\<close>

record KeyboardEvent =
  key :: string
  metaKey :: bool
  ctrlKey :: bool

datatype effect =
    PreventDefault
  | WindowPrint
  | WindowScrollTo nat string
  | WindowOpen string string

record palette =
  "open" :: bool
  effects :: "effect list"

definition initial_palette :: palette where
  "initial_palette = \<lparr>open = False, effects = []\<rparr>"

definition setOpen :: "bool \<Rightarrow> palette \<Rightarrow> palette" where
  "setOpen v s = s\<lparr>open := v\<rparr>"

definition call :: "effect \<Rightarrow> palette \<Rightarrow> palette" where
  "call e s = s\<lparr>effects := effects s @ [e]\<rparr>"

text \<open>
  The \<open>keydown\<close> listener: on \<open>k\<close> with Cmd or Ctrl it prevents the default and
  applies the updater \<open>(open) => !open\<close>.
\<close>

definition down :: "KeyboardEvent \<Rightarrow> palette \<Rightarrow> palette" where
  "down e s =
     (if key e = ''k'' \<and> (metaKey e \<or> ctrlKey e)
      then (let s1 = call PreventDefault s in setOpen (\<not> open s1) s1)
      else s)"

text \<open>\<open>runCommand\<close>: \<open>setOpen(false); command();\<close>\<close>

definition runCommand :: "(palette \<Rightarrow> palette) \<Rightarrow> palette \<Rightarrow> palette" where
  "runCommand command s = command (setOpen False s)"

datatype item = PrintResume | ScrollToTop | GitHub | LinkedIn

fun onSelect :: "item \<Rightarrow> palette \<Rightarrow> palette" where
  "onSelect PrintResume = runCommand (call WindowPrint)"
| "onSelect ScrollToTop = runCommand (call (WindowScrollTo 0 ''smooth''))"
| "onSelect GitHub = runCommand (call (WindowOpen ''https://github.com/yourname'' ''_blank''))"
| "onSelect LinkedIn =
     runCommand (call (WindowOpen ''https://linkedin.com/in/yourname'' ''_blank''))"

text \<open>The trigger button: \<open>onClick={() => setOpen(true)}\<close>.\<close>

definition onClick :: "palette \<Rightarrow> palette" where
  "onClick s = setOpen True s"

text \<open>The dialog is controlled: \<open>onOpenChange={setOpen}\<close> (escape, click outside).\<close>

definition onOpenChange :: "bool \<Rightarrow> palette \<Rightarrow> palette" where
  "onOpenChange v s = setOpen v s"

text \<open>
  What the component returns: the trigger button and one \<open>CommandDialog\<close> whose
  \<open>open\<close> prop is the state.
\<close>

datatype view = TriggerButton | CommandDialog bool "item list"

definition CommandMenu :: "palette \<Rightarrow> view list" where
  "CommandMenu s =
     [TriggerButton, CommandDialog (open s) [PrintResume, ScrollToTop, GitHub, LinkedIn]]"

fun shown :: "view \<Rightarrow> bool" where
  "shown TriggerButton = False"
| "shown (CommandDialog b _) = b"

definition overlays :: "palette \<Rightarrow> nat" where
  "overlays s = length (filter shown (CommandMenu s))"

definition modK :: KeyboardEvent where
  "modK = \<lparr>key = ''k'', metaKey = True, ctrlKey = False\<rparr>"

section \<open>The projection on the JavaScript heap\<close>

text \<open>
  In the running program objects and arrays have an identity and can be written to:
  whether \<open>resumeDataToGraphQL\<close> leaves its argument alone, and whether what it returns
  is made of objects of its own, is not visible in the value model above. Here the
  same function runs on a heap. A value is a primitive (or a React node, which the
  function never looks into) or a reference; a heap is the list of its cells, a
  reference being an index; allocation appends a cell.
\<close>

type_synonym addr = nat

datatype val = Prim ReactNode | Ref addr

datatype cell = Object "(string \<times> val) list" | ArrayCell "val list"

type_synonym heap = "cell list"

text \<open>
  \<open>TypeError\<close> is the exception JavaScript raises. \<open>Unsupported\<close> marks the cases
  this model does not follow because the argument type \<open>ResumeData\<close> excludes them
  and JavaScript's answer depends on prototypes or coercions: reading a property of a
  string, a number, a boolean, an element or an array, and \<open>Array.from\<close> of anything
  that is not an array, \<open>undefined\<close> or \<open>null\<close>. A reference that points to no
  cell, which no JavaScript value is, is \<open>Unsupported\<close> too.
\<close>

datatype js_error = TypeError | Unsupported

type_synonym 'a js = "heap \<Rightarrow> js_error + 'a \<times> heap"

definition return :: "'a \<Rightarrow> 'a js" where
  "return x h = Inr (x, h)"

definition bind :: "'a js \<Rightarrow> ('a \<Rightarrow> 'b js) \<Rightarrow> 'b js" where
  "bind m f h = (case m h of Inl e \<Rightarrow> Inl e | Inr (x, h') \<Rightarrow> f x h')"

definition cell_at :: "heap \<Rightarrow> val \<Rightarrow> cell option" where
  "cell_at h v = (case v of Prim n \<Rightarrow> None | Ref a \<Rightarrow> if a < length h then Some (h ! a) else None)"

definition property :: "(string \<times> val) list \<Rightarrow> string \<Rightarrow> val" where
  "property fs k = (case map_of fs k of None \<Rightarrow> Prim Undefined | Some v \<Rightarrow> v)"

text \<open>\<open>v.k\<close>: a property that an object does not have reads as \<open>undefined\<close>.\<close>

fun read :: "val \<Rightarrow> string \<Rightarrow> val js" where
  "read (Prim Undefined) k h = Inl TypeError"
| "read (Prim Null) k h = Inl TypeError"
| "read (Prim n) k h = Inl Unsupported"
| "read (Ref a) k h =
     (case cell_at h (Ref a) of
        Some (Object fs) \<Rightarrow> Inr (property fs k, h)
      | _ \<Rightarrow> Inl Unsupported)"

text \<open>A new object and a new array are new cells.\<close>

definition new_object :: "(string \<times> val) list \<Rightarrow> val js" where
  "new_object fs h = Inr (Ref (length h), h @ [Object fs])"

definition new_array :: "val list \<Rightarrow> val js" where
  "new_array vs h = Inr (Ref (length h), h @ [ArrayCell vs])"

text \<open>
  An object literal \<open>{ k1: e1, ..., kn: en }\<close> evaluates its property values in the
  order they are written and then creates the object.
\<close>

fun properties :: "(string \<times> val js) list \<Rightarrow> (string \<times> val) list js" where
  "properties [] = return []"
| "properties (p # ps) =
     bind (snd p) (\<lambda>v. bind (properties ps) (\<lambda>fs. return ((fst p, v) # fs)))"

definition literal :: "(string \<times> val js) list \<Rightarrow> val js" where
  "literal ps = bind (properties ps) new_object"

text \<open>
  \<open>arr.map(f)\<close> calls \<open>f\<close> on the elements in order and returns a new array of the
  results; on a value that is not an array the call raises \<open>TypeError\<close> (a property of
  \<open>undefined\<close>, or "map is not a function"). The cell of the new array is appended
  after the cells the calls allocate; the program cannot tell the order.
\<close>

fun each :: "(val \<Rightarrow> val js) \<Rightarrow> val list \<Rightarrow> val list js" where
  "each f [] = return []"
| "each f (v # vs) = bind (f v) (\<lambda>r. bind (each f vs) (\<lambda>rs. return (r # rs)))"

fun array_map :: "(val \<Rightarrow> val js) \<Rightarrow> val \<Rightarrow> val js" where
  "array_map f (Prim (Array nodes)) h = Inl Unsupported"
| "array_map f (Prim n) h = Inl TypeError"
| "array_map f (Ref a) h =
     (case cell_at h (Ref a) of
        Some (ArrayCell vs) \<Rightarrow> bind (each f vs) new_array h
      | Some (Object fs) \<Rightarrow> Inl TypeError
      | None \<Rightarrow> Inl Unsupported)"

fun Array_from_heap :: "val \<Rightarrow> val js" where
  "Array_from_heap (Prim Undefined) h = Inl TypeError"
| "Array_from_heap (Prim Null) h = Inl TypeError"
| "Array_from_heap (Prim n) h = Inl Unsupported"
| "Array_from_heap (Ref a) h =
     (case cell_at h (Ref a) of
        Some (ArrayCell vs) \<Rightarrow> new_array vs h
      | _ \<Rightarrow> Inl Unsupported)"

fun typeof_val :: "val \<Rightarrow> string" where
  "typeof_val (Prim n) = typeof n"
| "typeof_val (Ref a) = ''object''"

text \<open>The condition of \<open>c ? a : b\<close>.\<close>

fun truthy_val :: "val \<Rightarrow> bool" where
  "truthy_val (Prim (Text s)) = (s \<noteq> [])"
| "truthy_val (Prim (Number n)) = (n \<noteq> 0)"
| "truthy_val (Prim (Boolean b)) = b"
| "truthy_val (Prim Null) = False"
| "truthy_val (Prim Undefined) = False"
| "truthy_val v = True"

fun reactNodeToString_val :: "val \<Rightarrow> val" where
  "reactNodeToString_val (Prim (Text s)) = Prim (Text s)"
| "reactNodeToString_val node = Prim (Text ''[React Component]'')"

definition social_heap :: "val \<Rightarrow> val js" where
  "social_heap s =
     literal [(''name'', read s ''name''),
              (''url'', read s ''url''),
              (''navbar'', read s ''navbar'')]"

definition education_heap :: "val \<Rightarrow> val js" where
  "education_heap edu =
     literal [(''school'', read edu ''school''),
              (''degree'', read edu ''degree''),
              (''start'', read edu ''start''),
              (''end'', read edu ''end''),
              (''link'', read edu ''link'')]"

definition work_heap :: "val \<Rightarrow> val js" where
  "work_heap w =
     literal [(''company'', read w ''company''),
              (''title'', read w ''title''),
              (''start'', read w ''start''),
              (''end'', read w ''end''),
              (''description'', read w ''description''),
              (''link'', read w ''link''),
              (''badges'',
                 bind (read w ''badges'') (\<lambda>b.
                   if truthy_val b then bind (read w ''badges'') Array_from_heap
                   else return (Prim Undefined)))]"

definition link_heap :: "val \<Rightarrow> val js" where
  "link_heap = (\<lambda>link.
     literal [(''type'', read link ''type''),
              (''href'', read link ''href'')])"

definition project_heap :: "val \<Rightarrow> val js" where
  "project_heap p =
     literal [(''title'', read p ''title''),
              (''href'', read p ''href''),
              (''dates'', read p ''dates''),
              (''active'', read p ''active''),
              (''description'', read p ''description''),
              (''technologies'', bind (read p ''technologies'') Array_from_heap),
              (''links'', bind (read p ''links'') (array_map link_heap)),
              (''image'', read p ''image''),
              (''video'', read p ''video'')]"

definition resumeDataToGraphQL_heap :: "val \<Rightarrow> val js" where
  "resumeDataToGraphQL_heap data =
     literal [(''name'', read data ''name''),
              (''initials'', read data ''initials''),
              (''location'', read data ''location''),
              (''locationLink'', read data ''locationLink''),
              (''about'', read data ''about''),
              (''summary'',
                 bind (read data ''summary'') (\<lambda>s.
                   if typeof_val s = ''string'' then read data ''summary''
                   else bind (read data ''summary'')
                          (\<lambda>node. return (reactNodeToString_val node)))),
              (''avatarUrl'', read data ''avatarUrl''),
              (''personalWebsiteUrl'', read data ''personalWebsiteUrl''),
              (''contact'',
                 literal [(''email'', bind (read data ''contact'') (\<lambda>c. read c ''email'')),
                          (''tel'', bind (read data ''contact'') (\<lambda>c. read c ''tel'')),
                          (''social'',
                             bind (bind (read data ''contact'') (\<lambda>c. read c ''social''))
                               (array_map social_heap))]),
              (''education'', bind (read data ''education'') (array_map education_heap)),
              (''work'', bind (read data ''work'') (array_map work_heap)),
              (''skills'', bind (read data ''skills'') Array_from_heap),
              (''projects'', bind (read data ''projects'') (array_map project_heap))]"

section \<open>Reading records off the heap\<close>

text \<open>
  The structure reachable from a value, to a given depth: the primitive itself, or the
  elements of the array, or the properties of the object the reference points to.
  Only cells at the addresses from \<open>lo\<close> on are entered: \<open>snapshot lo k h v = Some t\<close>
  says that \<open>v\<close> has the structure \<open>t\<close> and that every object and array in it lives
  at an address that is at least \<open>lo\<close>.
\<close>

datatype js_value = Atom ReactNode | List "js_value list" | Record "(string \<times> js_value) list"

fun snapshot :: "addr \<Rightarrow> nat \<Rightarrow> heap \<Rightarrow> val \<Rightarrow> js_value option" where
  "snapshot lo k h (Prim n) = Some (Atom n)"
| "snapshot lo 0 h (Ref a) = None"
| "snapshot lo (Suc k) h (Ref a) =
     (if lo \<le> a \<and> a < length h
      then (case h ! a of
              ArrayCell vs \<Rightarrow> map_option List (those (map (snapshot lo k h) vs))
            | Object fs \<Rightarrow>
                map_option Record
                  (those (map (\<lambda>f. map_option (Pair (fst f)) (snapshot lo k h (snd f))) fs)))
      else None)"

text \<open>The structure of the objects of the wire classes, as the object literals write them.\<close>

definition optional :: "('a \<Rightarrow> ReactNode) \<Rightarrow> 'a option \<Rightarrow> js_value" where
  "optional f v = (case v of None \<Rightarrow> Atom Undefined | Some x \<Rightarrow> Atom (f x))"

definition strings :: "string list \<Rightarrow> js_value" where
  "strings ss = List (map (\<lambda>s. Atom (Text s)) ss)"

definition Social_value :: "Social_gql \<Rightarrow> js_value" where
  "Social_value s =
     Record [(''name'', Atom (Text (Social_gql.name s))),
             (''url'', Atom (Text (Social_gql.url s))),
             (''navbar'', optional Boolean (Social_gql.navbar s))]"

definition Contact_value :: "Contact_gql \<Rightarrow> js_value" where
  "Contact_value c =
     Record [(''email'', Atom (Text (Contact_gql.email c))),
             (''tel'', Atom (Text (Contact_gql.tel c))),
             (''social'', List (map Social_value (Contact_gql.social c)))]"

definition Education_value :: "Education_gql \<Rightarrow> js_value" where
  "Education_value e =
     Record [(''school'', Atom (Text (Education_gql.school e))),
             (''degree'', Atom (Text (Education_gql.degree e))),
             (''start'', Atom (Text (Education_gql.start e))),
             (''end'', Atom (Text (Education_gql.end e))),
             (''link'', optional Text (Education_gql.link e))]"

definition Work_value :: "Work_gql \<Rightarrow> js_value" where
  "Work_value w =
     Record [(''company'', Atom (Text (Work_gql.company w))),
             (''title'', Atom (Text (Work_gql.title w))),
             (''start'', Atom (Text (Work_gql.start w))),
             (''end'', Atom (Text (Work_gql.end w))),
             (''description'', Atom (Text (Work_gql.description w))),
             (''link'', optional Text (Work_gql.link w)),
             (''badges'', (case Work_gql.badges w of
                             None \<Rightarrow> Atom Undefined
                           | Some bs \<Rightarrow> strings bs))]"

definition Link_value :: "Link \<Rightarrow> js_value" where
  "Link_value l =
     Record [(''type'', Atom (Text (Link.type l))), (''href'', Atom (Text (Link.href l)))]"

definition Project_value :: "Project_gql \<Rightarrow> js_value" where
  "Project_value p =
     Record [(''title'', Atom (Text (Project_gql.title p))),
             (''href'', optional Text (Project_gql.href p)),
             (''dates'', Atom (Text (Project_gql.dates p))),
             (''active'', Atom (Boolean (Project_gql.active p))),
             (''description'', Atom (Text (Project_gql.description p))),
             (''technologies'', strings (Project_gql.technologies p)),
             (''links'', List (map Link_value (Project_gql.links p))),
             (''image'', optional Text (Project_gql.image p)),
             (''video'', optional Text (Project_gql.video p))]"

definition Me_value :: "Me \<Rightarrow> js_value" where
  "Me_value m =
     Record [(''name'', Atom (Text (Me.name m))),
             (''initials'', Atom (Text (Me.initials m))),
             (''location'', Atom (Text (Me.location m))),
             (''locationLink'', Atom (Text (Me.locationLink m))),
             (''about'', Atom (Text (Me.about m))),
             (''summary'', Atom (Text (Me.summary m))),
             (''avatarUrl'', Atom (Text (Me.avatarUrl m))),
             (''personalWebsiteUrl'', Atom (Text (Me.personalWebsiteUrl m))),
             (''contact'', Contact_value (Me.contact m)),
             (''education'', List (map Education_value (Me.education m))),
             (''work'', List (map Work_value (Me.work m))),
             (''skills'', strings (Me.skills m)),
             (''projects'', List (map Project_value (Me.projects m)))]"

text \<open>
  A well-formed argument: a value that reads as a record of the interface
  \<open>ResumeData\<close> in the heap. Where its objects and arrays lie, whether they are
  shared, and which other properties they carry is left open.
\<close>

fun str :: "val \<Rightarrow> string option" where
  "str (Prim (Text s)) = Some s"
| "str v = None"

fun boolean :: "val \<Rightarrow> bool option" where
  "boolean (Prim (Boolean b)) = Some b"
| "boolean v = None"

fun any_node :: "val \<Rightarrow> ReactNode option" where
  "any_node (Prim n) = Some n"
| "any_node v = None"

text \<open>An optional property is either missing (it reads as \<open>undefined\<close>) or of its type.\<close>

fun opt :: "(val \<Rightarrow> 'a option) \<Rightarrow> val \<Rightarrow> 'a option option" where
  "opt f (Prim Undefined) = Some None"
| "opt f v = map_option Some (f v)"

definition fields :: "heap \<Rightarrow> val \<Rightarrow> (string \<times> val) list option" where
  "fields h v = (case cell_at h v of Some (Object fs) \<Rightarrow> Some fs | _ \<Rightarrow> None)"

definition elements :: "heap \<Rightarrow> val \<Rightarrow> val list option" where
  "elements h v = (case cell_at h v of Some (ArrayCell vs) \<Rightarrow> Some vs | _ \<Rightarrow> None)"

definition array_of :: "(val \<Rightarrow> 'a option) \<Rightarrow> heap \<Rightarrow> val \<Rightarrow> 'a list option" where
  "array_of f h v = do { vs \<leftarrow> elements h v; those (map f vs) }"

definition repr_Social :: "heap \<Rightarrow> val \<Rightarrow> Social option" where
  "repr_Social h v = do {
     fs \<leftarrow> fields h v;
     name \<leftarrow> str (property fs ''name'');
     url \<leftarrow> str (property fs ''url'');
     icon \<leftarrow> any_node (property fs ''icon'');
     navbar \<leftarrow> opt boolean (property fs ''navbar'');
     Some \<lparr>Social.name = name, url = url, icon = icon, navbar = navbar\<rparr> }"

definition repr_Contact :: "heap \<Rightarrow> val \<Rightarrow> Contact option" where
  "repr_Contact h v = do {
     fs \<leftarrow> fields h v;
     email \<leftarrow> str (property fs ''email'');
     tel \<leftarrow> str (property fs ''tel'');
     social \<leftarrow> array_of (repr_Social h) h (property fs ''social'');
     Some \<lparr>Contact.email = email, tel = tel, social = social\<rparr> }"

definition repr_Work :: "heap \<Rightarrow> val \<Rightarrow> Work option" where
  "repr_Work h v = do {
     fs \<leftarrow> fields h v;
     company \<leftarrow> str (property fs ''company'');
     title \<leftarrow> str (property fs ''title'');
     logo \<leftarrow> opt any_node (property fs ''logo'');
     start \<leftarrow> str (property fs ''start'');
     end \<leftarrow> str (property fs ''end'');
     description \<leftarrow> str (property fs ''description'');
     link \<leftarrow> opt str (property fs ''link'');
     badges \<leftarrow> opt (array_of str h) (property fs ''badges'');
     Some \<lparr>Work.company = company, title = title, logo = logo, start = start, end = end,
           description = description, link = link, badges = badges\<rparr> }"

definition repr_Education :: "heap \<Rightarrow> val \<Rightarrow> Education option" where
  "repr_Education h v = do {
     fs \<leftarrow> fields h v;
     school \<leftarrow> str (property fs ''school'');
     degree \<leftarrow> str (property fs ''degree'');
     start \<leftarrow> str (property fs ''start'');
     end \<leftarrow> str (property fs ''end'');
     link \<leftarrow> opt str (property fs ''link'');
     Some \<lparr>Education.school = school, degree = degree, start = start, end = end,
           link = link\<rparr> }"

definition repr_ProjectLink :: "heap \<Rightarrow> val \<Rightarrow> ProjectLink option" where
  "repr_ProjectLink h v = do {
     fs \<leftarrow> fields h v;
     type \<leftarrow> str (property fs ''type'');
     href \<leftarrow> str (property fs ''href'');
     icon \<leftarrow> any_node (property fs ''icon'');
     Some \<lparr>ProjectLink.type = type, href = href, icon = icon\<rparr> }"

definition repr_Project :: "heap \<Rightarrow> val \<Rightarrow> Project option" where
  "repr_Project h v = do {
     fs \<leftarrow> fields h v;
     title \<leftarrow> str (property fs ''title'');
     href \<leftarrow> opt str (property fs ''href'');
     dates \<leftarrow> str (property fs ''dates'');
     active \<leftarrow> boolean (property fs ''active'');
     description \<leftarrow> str (property fs ''description'');
     technologies \<leftarrow> array_of str h (property fs ''technologies'');
     links \<leftarrow> array_of (repr_ProjectLink h) h (property fs ''links'');
     image \<leftarrow> opt str (property fs ''image'');
     video \<leftarrow> opt str (property fs ''video'');
     Some \<lparr>Project.title = title, href = href, dates = dates, active = active,
           description = description, technologies = technologies, links = links,
           image = image, video = video\<rparr> }"

definition repr_ResumeData :: "heap \<Rightarrow> val \<Rightarrow> ResumeData option" where
  "repr_ResumeData h v = do {
     fs \<leftarrow> fields h v;
     name \<leftarrow> str (property fs ''name'');
     initials \<leftarrow> str (property fs ''initials'');
     location \<leftarrow> str (property fs ''location'');
     locationLink \<leftarrow> str (property fs ''locationLink'');
     about \<leftarrow> str (property fs ''about'');
     summary \<leftarrow> any_node (property fs ''summary'');
     avatarUrl \<leftarrow> str (property fs ''avatarUrl'');
     personalWebsiteUrl \<leftarrow> str (property fs ''personalWebsiteUrl'');
     contact \<leftarrow> repr_Contact h (property fs ''contact'');
     education \<leftarrow> array_of (repr_Education h) h (property fs ''education'');
     work \<leftarrow> array_of (repr_Work h) h (property fs ''work'');
     skills \<leftarrow> array_of str h (property fs ''skills'');
     projects \<leftarrow> array_of (repr_Project h) h (property fs ''projects'');
     Some \<lparr>ResumeData.name = name, initials = initials, location = location,
           locationLink = locationLink, about = about, summary = summary,
           avatarUrl = avatarUrl, personalWebsiteUrl = personalWebsiteUrl,
           contact = contact, education = education, work = work, skills = skills,
           projects = projects\<rparr> }"

text \<open>
  A computation yields a structure from a heap on: run on that heap or on any heap that
  has grown from it, it returns normally, it has only appended cells, and what it
  returns has that structure to depth \<open>k\<close>, in cells from \<open>lo\<close> on.
\<close>

definition yields :: "addr \<Rightarrow> nat \<Rightarrow> val js \<Rightarrow> heap \<Rightarrow> js_value \<Rightarrow> bool" where
  "yields lo k m h t \<longleftrightarrow>
     (\<forall>hx. \<exists>r hy. m (h @ hx) = Inr (r, h @ hx @ hy) \<and> snapshot lo k (h @ hx @ hy) r = Some t)"

section \<open>The GraphQL engine\<close>

text \<open>
  Modelled from the spec: the GraphQL engine (the schema builder of type-graphql and the
  validation and execution of Apollo Server) is not in the sources. Section 6 of the
  spec and \<open>DOCS/API-REFERENCE.md\<close> give the shape of its answers: a query is checked
  against the schema before anything runs; a field the schema does not have is
  answered by \<open>errors\<close> with the code \<open>GRAPHQL_VALIDATION_FAILED\<close> and no data; a
  resolver that raises is answered by \<open>errors\<close> with the code
  \<open>INTERNAL_SERVER_ERROR\<close>; a valid query whose resolver returns is answered by
  \<open>data\<close>, the selected fields of what the resolver returned. The schema itself is
  read off the decorators of \<open>type-defs.ts\<close> and \<open>resolvers.ts\<close>.
\<close>

datatype json =
    JNull
  | JBool bool
  | JString string
  | JArray "json list"
  | JObject "(string \<times> json) list"

datatype gql_type = String_type | Boolean_type | Object_type string | List_type gql_type

text \<open>A field of an object type: its name, its type, and whether it is nullable.\<close>

type_synonym field = "string \<times> gql_type \<times> bool"

type_synonym gql_schema = "(string \<times> field list) list"

definition type_defs :: gql_schema where
  "type_defs =
     [(''Social'',
         [(''name'', String_type, False), (''url'', String_type, False),
          (''navbar'', Boolean_type, True)]),
      (''Contact'',
         [(''email'', String_type, False), (''tel'', String_type, False),
          (''social'', List_type (Object_type ''Social''), False)]),
      (''Work'',
         [(''company'', String_type, False), (''title'', String_type, False),
          (''start'', String_type, False), (''end'', String_type, False),
          (''description'', String_type, False), (''link'', String_type, True),
          (''badges'', List_type String_type, True)]),
      (''Education'',
         [(''school'', String_type, False), (''degree'', String_type, False),
          (''start'', String_type, False), (''end'', String_type, False),
          (''link'', String_type, True)]),
      (''Link'', [(''type'', String_type, False), (''href'', String_type, False)]),
      (''Project'',
         [(''title'', String_type, False), (''href'', String_type, True),
          (''dates'', String_type, False), (''active'', Boolean_type, False),
          (''description'', String_type, False),
          (''technologies'', List_type String_type, False),
          (''links'', List_type (Object_type ''Link''), False),
          (''image'', String_type, True), (''video'', String_type, True)]),
      (''Me'',
         [(''name'', String_type, False), (''initials'', String_type, False),
          (''location'', String_type, False), (''locationLink'', String_type, False),
          (''about'', String_type, False), (''summary'', String_type, False),
          (''avatarUrl'', String_type, False), (''personalWebsiteUrl'', String_type, False),
          (''contact'', Object_type ''Contact'', False),
          (''education'', List_type (Object_type ''Education''), False),
          (''work'', List_type (Object_type ''Work''), False),
          (''skills'', List_type String_type, False),
          (''projects'', List_type (Object_type ''Project''), False)])]"

text \<open>\<open>@Query(() => Me) me(): Me\<close> is the one query field a resolver class declares.\<close>

fun query_fields :: "resolver \<Rightarrow> field list" where
  "query_fields MeResolver = [(''me'', Object_type ''Me'', False)]"

text \<open>
  Modelled from the spec: \<open>buildSchema\<close> of type-graphql. The schema has the object
  types of \<open>type-defs.ts\<close> and a \<open>Query\<close> type with the query fields of the resolvers
  it is given. A schema needs a query field: the library refuses an empty list of
  resolvers by raising an error with the message \<open>empty_resolvers\<close>.
\<close>

definition empty_resolvers :: string where
  "empty_resolvers =
     ''Empty '' @ [CHR 0x60] @ ''resolvers'' @ [CHR 0x60] @ '' array property found in ''
     @ [CHR 0x60] @ ''buildSchema'' @ [CHR 0x60] @ '' options!''"

definition buildSchema :: "resolver list \<Rightarrow> string + gql_schema" where
  "buildSchema resolvers =
     (if resolvers = [] then Inl empty_resolvers
      else Inr ((''Query'', concat (map query_fields resolvers)) # type_defs))"

text \<open>
  A query is its selection set: each selected field with the selection on it, as in
  \<open>me { name work { company } }\<close>.
\<close>

datatype selection = Field string "selection list"

datatype gql_error = GraphQLError (message: string) (code: string)

datatype response = Data json | Errors "gql_error list"

fun named_type :: "gql_type \<Rightarrow> string option" where
  "named_type (Object_type n) = Some n"
| "named_type (List_type t) = named_type t"
| "named_type t = None"

definition cannot_query :: "string \<Rightarrow> string \<Rightarrow> gql_error" where
  "cannot_query f t =
     GraphQLError (''Cannot query field '' @ [CHR 0x27] @ f @ [CHR 0x27] @ '' on type ''
                   @ [CHR 0x27] @ t @ [CHR 0x27] @ ''.'')
       ''GRAPHQL_VALIDATION_FAILED''"

definition bad_selection :: "string \<Rightarrow> string \<Rightarrow> gql_error" where
  "bad_selection f t =
     GraphQLError (''Field '' @ [CHR 0x27] @ f @ [CHR 0x27] @ '' of type ''
                   @ [CHR 0x27] @ t @ [CHR 0x27] @ '' has a wrong selection of subfields.'')
       ''GRAPHQL_VALIDATION_FAILED''"

text \<open>
  Modelled from the spec: validation of a selection against a type of the schema. A
  field the type does not have is an error; so is a selection of subfields on a scalar
  and a missing one on an object.
\<close>

fun validate :: "gql_schema \<Rightarrow> string \<Rightarrow> selection \<Rightarrow> gql_error list" where
  "validate sch t (Field f subs) =
     (case map_of sch t of
        None \<Rightarrow> [cannot_query f t]
      | Some fs \<Rightarrow>
          (case map_of fs f of
             None \<Rightarrow> [cannot_query f t]
           | Some (ty, _) \<Rightarrow>
               (case named_type ty of
                  None \<Rightarrow> (if subs = [] then [] else [bad_selection f t])
                | Some t' \<Rightarrow>
                    (if subs = [] then [bad_selection f t]
                     else concat (map (validate sch t') subs)))))"

text \<open>The selected fields of a value: of an object, of every element of a list.\<close>

fun select :: "selection list \<Rightarrow> js_value \<Rightarrow> js_value" where
  "select sels (Record fs) =
     Record (map (\<lambda>sel. case sel of Field f subs \<Rightarrow>
               (f, select subs (case map_of fs f of None \<Rightarrow> Atom Undefined | Some v \<Rightarrow> v))) sels)"
| "select sels (List vs) = List (map (select sels) vs)"
| "select sels (Atom n) = Atom n"

text \<open>
  What goes on the wire: strings, booleans, lists and objects; \<open>undefined\<close> and \<open>null\<close>
  as \<open>null\<close>. Nothing else can be the value of a field of the schema.
\<close>

fun to_json :: "js_value \<Rightarrow> json option" where
  "to_json (Atom (Text s)) = Some (JString s)"
| "to_json (Atom (Boolean b)) = Some (JBool b)"
| "to_json (Atom Undefined) = Some JNull"
| "to_json (Atom Null) = Some JNull"
| "to_json (Atom n) = None"
| "to_json (List vs) = map_option JArray (those (map to_json vs))"
| "to_json (Record fs) =
     map_option JObject (those (map (\<lambda>f. map_option (Pair (fst f)) (to_json (snd f))) fs))"

text \<open>
  \<open>MeResolver.me\<close> returns the projection of the record the module imports as
  \<open>RESUME_DATA\<close>; the record is the parameter here, and the call runs on the heap.
  The root value of a query field is what the resolver method of that name returns.
\<close>

definition me :: "val \<Rightarrow> val js" where
  "me RESUME_DATA = resumeDataToGraphQL_heap RESUME_DATA"

definition resolve :: "val \<Rightarrow> string \<Rightarrow> val js" where
  "resolve RESUME_DATA f = (if f = ''me'' then me RESUME_DATA else return (Prim Undefined))"

text \<open>
  The message of an internal error is the error's own where the server includes
  details (development), and fixed where it does not (production).
\<close>

definition internal_error :: "'sch ApolloServer \<Rightarrow> string \<Rightarrow> gql_error" where
  "internal_error server detail =
     GraphQLError (if includeStacktraceInErrorResponses server then detail
                   else ''Internal server error'')
       ''INTERNAL_SERVER_ERROR''"

fun error_name :: "js_error \<Rightarrow> string" where
  "error_name TypeError = ''TypeError''"
| "error_name Unsupported = ''Unsupported''"

text \<open>
  Modelled from the spec: the execution of one root field. The resolver runs on the
  heap of the process; when it raises, or returns what the wire cannot carry, the
  field is an internal error; otherwise it is the selected fields of the result.
\<close>

definition execute :: "heap \<Rightarrow> val \<Rightarrow> 'sch ApolloServer \<Rightarrow> selection \<Rightarrow> gql_error + string \<times> json" where
  "execute h RESUME_DATA server sel =
     (case sel of Field f subs \<Rightarrow>
        (case resolve RESUME_DATA f h of
           Inl e \<Rightarrow> Inl (internal_error server (error_name e))
         | Inr (r, h') \<Rightarrow>
             (case Option.bind (snapshot 0 5 h' r) (\<lambda>v. to_json (select subs v)) of
                None \<Rightarrow> Inl (internal_error server ''Cannot represent value'')
              | Some j \<Rightarrow> Inr (f, j))))"

fun execute_all ::
  "heap \<Rightarrow> val \<Rightarrow> 'sch ApolloServer \<Rightarrow> selection list \<Rightarrow> gql_error + (string \<times> json) list" where
  "execute_all h RESUME_DATA server [] = Inr []"
| "execute_all h RESUME_DATA server (sel # sels) =
     (case execute h RESUME_DATA server sel of
        Inl e \<Rightarrow> Inl e
      | Inr x \<Rightarrow>
          (case execute_all h RESUME_DATA server sels of
             Inl e \<Rightarrow> Inl e
           | Inr xs \<Rightarrow> Inr (x # xs)))"

text \<open>
  Modelled from the spec: the request handling of Apollo Server. A query with a
  validation error is answered by the errors and is not executed; any other query is
  executed, and answered by its data or by the error of the root field that failed.
\<close>

definition apollo ::
  "heap \<Rightarrow> val \<Rightarrow> gql_schema ApolloServer \<Rightarrow> selection list \<Rightarrow> response" where
  "apollo h RESUME_DATA server query =
     (case concat (map (validate (schema server) ''Query'') query) of
        [] \<Rightarrow>
          (case execute_all h RESUME_DATA server query of
             Inl e \<Rightarrow> Errors [e]
           | Inr xs \<Rightarrow> Data (JObject xs))
      | errors \<Rightarrow> Errors errors)"

text \<open>The body of the answer: the success shape and the failure shape.\<close>

fun response_json :: "response \<Rightarrow> json" where
  "response_json (Data v) = JObject [(''data'', v)]"
| "response_json (Errors errors) =
     JObject [(''errors'',
       JArray (map (\<lambda>e. JObject [(''message'', JString (message e)),
                                  (''extensions'', JObject [(''code'', JString (code e))])])
                 errors))]"

text \<open>The sample record laid out in a heap, the record object last.\<close>

definition sample_heap :: heap where
  "sample_heap =
     [Object [(''name'', Prim (Text ''GitHub'')),
              (''url'', Prim (Text ''https://github.com/ban-nguyen'')),
              (''icon'', Prim (Text ''github''))],
      Object [(''name'', Prim (Text ''LinkedIn'')),
              (''url'', Prim (Text ''https://www.linkedin.com/in/ban-nguyen/'')),
              (''icon'', Prim (Text ''linkedin''))],
      ArrayCell [Ref 0, Ref 1],
      Object [(''email'', Prim (Text ''nguyenducban@me.com'')),
              (''tel'', Prim (Text ''+84983472120'')),
              (''social'', Ref 2)],
      Object [(''school'', Prim (Text ''Swiss International University'')),
              (''degree'', Prim (Text ''Bachelor's Degree, Marketing'')),
              (''start'', Prim (Text ''2016'')),
              (''end'', Prim (Text ''2018''))],
      Object [(''school'', Prim (Text ''Tay Nguyen University'')),
              (''degree'',
               Prim (Text ''Bachelor's Degree, Faculty of Agriculture and Forestry'')),
              (''start'', Prim (Text ''1997'')),
              (''end'', Prim (Text ''2001''))],
      ArrayCell [Ref 4, Ref 5],
      ArrayCell [Prim (Text ''AI''), Prim (Text ''Fintech''), Prim (Text ''Travel'')],
      Object [(''company'', Prim (Text ''MoMo (M_Service)'')),
              (''link'', Prim (Text ''https://momo.vn/'')),
              (''badges'', Ref 7),
              (''title'', Prim (Text ''Product Management - Team Leader'')),
              (''start'', Prim (Text ''2024'')),
              (''end'', Prim (Text ''Present'')),
              (''description'', Prim (Text ''Led product strategy for MoMo Travel.''))],
      ArrayCell [Ref 8],
      ArrayCell [Prim (Text ''Applied AI & Automation''),
                 Prim (Text ''Agile & Scrum Methodologies'')],
      ArrayCell [Prim (Text ''Next.js''), Prim (Text ''TypeScript'')],
      Object [(''type'', Prim (Text ''Website'')),
              (''href'', Prim (Text ''https://projectalpha.com'')),
              (''icon'', Prim (Element ''Globe'' [(''className'', ''size-3'')] []))],
      ArrayCell [Ref 12],
      Object [(''title'', Prim (Text ''Project Alpha'')),
              (''href'', Prim (Text ''https://projectalpha.com'')),
              (''dates'', Prim (Text ''Jan 2023 - Present'')),
              (''active'', Prim (Boolean True)),
              (''description'',
               Prim (Text ''A platform that helps developers find remote jobs.'')),
              (''technologies'', Ref 11),
              (''links'', Ref 13),
              (''image'', Prim (Text ''/projects/alpha.png''))],
      ArrayCell [Ref 14],
      Object [(''name'', Prim (Text ''Ban Nguyen'')),
              (''initials'', Prim (Text ''BN'')),
              (''location'', Prim (Text ''Ho Chi Minh City, Viet Nam'')),
              (''locationLink'',
               Prim (Text ''https://www.google.com/maps/place/Ho+Chi+Minh+City'')),
              (''about'', Prim (Text ''Product Manager'')),
              (''summary'',
               Prim (Text ''Product Manager with a strategic marketing foundation.'')),
              (''avatarUrl'',
               Prim (Text ''https://angi.truanay.com/images/photo-2-square.jpg'')),
              (''personalWebsiteUrl'', Prim (Text ''https://ducban.com'')),
              (''contact'', Ref 3),
              (''education'', Ref 6),
              (''work'', Ref 9),
              (''skills'', Ref 10),
              (''projects'', Ref 15)]]"

section \<open>The records of the sources\<close>

text \<open>
  The record of the guide's \<open>src/data/resume-data.tsx\<close> (step 3.2), which is of the
  interface \<open>ResumeData\<close>, as its literal lays it out: the parts of an object or array
  before the object or array itself, the record object last.
\<close>

definition guide_heap :: heap where
  "guide_heap =
     [
      Object
        [(''name'', Prim (Text ''GitHub'')),
         (''url'', Prim (Text ''https://github.com/yourusername'')),
         (''icon'', Prim (Element ''GitHubIcon'' [] [])),
         (''navbar'', Prim (Boolean True))],
      Object
        [(''name'', Prim (Text ''LinkedIn'')),
         (''url'', Prim (Text ''https://linkedin.com/in/yourusername'')),
         (''icon'', Prim (Element ''LinkedInIcon'' [] [])),
         (''navbar'', Prim (Boolean True))],
      Object
        [(''name'', Prim (Text ''X'')),
         (''url'', Prim (Text ''https://x.com/yourusername'')),
         (''icon'', Prim (Element ''XIcon'' [] [])),
         (''navbar'', Prim (Boolean False))],
      ArrayCell
        [Ref 0,
         Ref 1,
         Ref 2],
      Object
        [(''email'', Prim (Text ''you@example.com'')),
         (''tel'', Prim (Text ''+1234567890'')),
         (''social'', Ref 3)],
      Object
        [(''school'', Prim (Text ''Stanford University'')),
         (''degree'', Prim (Text (''Bachelor'' @ [CHR 0x27] @ ''s in Computer Science''))),
         (''start'', Prim (Text ''2015'')),
         (''end'', Prim (Text ''2019'')),
         (''link'', Prim (Text ''https://stanford.edu''))],
      ArrayCell
        [Ref 5],
      ArrayCell
        [Prim (Text ''React''),
         Prim (Text ''GraphQL''),
         Prim (Text ''TypeScript''),
         Prim (Text ''Node.js'')],
      Object
        [(''company'', Prim (Text ''Meta'')),
         (''title'', Prim (Text ''Senior Software Engineer'')),
         (''start'', Prim (Text ''2021'')),
         (''end'', Prim (Text ''Present'')),
         (''description'', Prim (Text ''Led development of internal tools used by 10,000+ employees. Improved performance by 40% through optimization.'')),
         (''link'', Prim (Text ''https://meta.com'')),
         (''badges'', Ref 7)],
      ArrayCell
        [Prim (Text ''Next.js''),
         Prim (Text ''PostgreSQL''),
         Prim (Text ''AWS'')],
      Object
        [(''company'', Prim (Text ''Startup Inc'')),
         (''title'', Prim (Text ''Full Stack Engineer'')),
         (''start'', Prim (Text ''2019'')),
         (''end'', Prim (Text ''2021'')),
         (''description'', Prim (Text ''Built MVP from scratch. Scaled from 0 to 100k users.'')),
         (''badges'', Ref 9)],
      ArrayCell
        [Ref 8,
         Ref 10],
      ArrayCell
        [Prim (Text ''JavaScript''),
         Prim (Text ''TypeScript''),
         Prim (Text ''React''),
         Prim (Text ''Next.js''),
         Prim (Text ''Node.js''),
         Prim (Text ''PostgreSQL''),
         Prim (Text ''GraphQL''),
         Prim (Text ''AWS''),
         Prim (Text ''Docker'')],
      ArrayCell
        [Prim (Text ''Next.js''),
         Prim (Text ''TypeScript''),
         Prim (Text ''PostgreSQL''),
         Prim (Text ''Prisma''),
         Prim (Text ''TailwindCSS'')],
      Object
        [(''type'', Prim (Text ''Website'')),
         (''href'', Prim (Text ''https://projectalpha.com'')),
         (''icon'', Prim (Element ''Globe'' [(''className'', ''size-3'')] []))],
      Object
        [(''type'', Prim (Text ''GitHub'')),
         (''href'', Prim (Text ''https://github.com/you/project-alpha'')),
         (''icon'', Prim (Element ''GitHubIcon'' [(''className'', ''size-3'')] []))],
      ArrayCell
        [Ref 14,
         Ref 15],
      Object
        [(''title'', Prim (Text ''Project Alpha'')),
         (''href'', Prim (Text ''https://projectalpha.com'')),
         (''dates'', Prim (Text ''Jan 2023 - Present'')),
         (''active'', Prim (Boolean True)),
         (''description'', Prim (Text ''A platform that helps developers find remote jobs. Built with Next.js 14, Prisma, and PostgreSQL.'')),
         (''technologies'', Ref 13),
         (''links'', Ref 16),
         (''image'', Prim (Text ''/projects/alpha.png''))],
      ArrayCell
        [Ref 17],
      Object
        [(''name'', Prim (Text ''Your Name'')),
         (''initials'', Prim (Text ''YN'')),
         (''location'', Prim (Text ''San Francisco, CA'')),
         (''locationLink'', Prim (Text ''https://www.google.com/maps/place/san-francisco'')),
         (''about'', Prim (Text ''Full Stack Engineer passionate about building great products'')),
         (''summary'', Prim (Text ''Experienced software engineer with 5+ years...'')),
         (''avatarUrl'', Prim (Text ''https://avatars.githubusercontent.com/u/yourusername'')),
         (''personalWebsiteUrl'', Prim (Text ''https://yourwebsite.com'')),
         (''contact'', Ref 4),
         (''education'', Ref 6),
         (''work'', Ref 11),
         (''skills'', Ref 12),
         (''projects'', Ref 18)]]"

definition guide_RESUME_DATA :: val where
  "guide_RESUME_DATA = Ref 19"



section \<open>Properties of the projection\<close>

lemma Array_from_id: "Array_from xs = xs"
  by (simp add: Array_from_def)

lemma typeof_string: "typeof n = ''string'' \<longleftrightarrow> (\<exists>s. n = Text s)"
  by (cases n) simp_all

text \<open>
  C2: when the summary is a plain string, the projection returns that string as the
  summary; the description of every work entry (a string by its type) is returned as
  it is, entry by entry.
\<close>

theorem C2_plain_strings_pass_through:
  assumes "ResumeData.summary data = Text s"
  shows "Me.summary (resumeDataToGraphQL data) = s
         \<and> map Work_gql.description (Me.work (resumeDataToGraphQL data))
             = map Work.description (ResumeData.work data)"
  using assms by (simp add: resumeDataToGraphQL_def comp_def)

theorem C2_plain_strings_pass_through_witness:
  "Me.summary (resumeDataToGraphQL sample_resume) = ''Product Manager with a strategic marketing foundation.''
   \<and> map Work_gql.description (Me.work (resumeDataToGraphQL sample_resume))
       = [''Led product strategy for MoMo Travel.'']"
  using C2_plain_strings_pass_through
    [of sample_resume "''Product Manager with a strategic marketing foundation.''"]
  by (simp add: sample_resume_def)

text \<open>
  C9: a summary that is not a string is replaced by the placeholder, whatever the node
  contains, and \<open>reactNodeToString\<close> returns the placeholder for every argument that
  is not a string.
\<close>

theorem C9_rich_summary_becomes_placeholder:
  assumes "\<forall>s. node \<noteq> Text s"
  shows "reactNodeToString node = ''[React Component]''
         \<and> (ResumeData.summary data = node
              \<longrightarrow> Me.summary (resumeDataToGraphQL data) = ''[React Component]'')"
proof -
  from assms have not_string: "typeof node \<noteq> ''string''"
    by (simp add: typeof_string)
  from assms have placeholder: "reactNodeToString node = ''[React Component]''"
    by (cases node) simp_all
  from not_string placeholder show ?thesis
    by (simp add: resumeDataToGraphQL_def)
qed

theorem C9_rich_summary_becomes_placeholder_witness:
  "reactNodeToString (Element ''b'' [] [Text ''Senior Product Manager'']) = ''[React Component]''
   \<and> Me.summary (resumeDataToGraphQL (sample_resume
         \<lparr>ResumeData.summary := Element ''b'' [] [Text ''Senior Product Manager'']\<rparr>))
       = ''[React Component]''"
  using C9_rich_summary_becomes_placeholder
    [of "Element ''b'' [] [Text ''Senior Product Manager'']"
        "sample_resume\<lparr>ResumeData.summary := Element ''b'' [] [Text ''Senior Product Manager'']\<rparr>"]
  by simp

section \<open>Properties of the section renderers\<close>

lemma blocks_array_of_tagged:
  assumes "\<And>x. \<exists>props children. f x = Element t props children"
  shows "blocks t (Array (map f xs)) = map f xs"
proof (induction xs)
  case Nil
  show ?case by simp
next
  case (Cons x xs)
  from assms obtain props children where "f x = Element t props children"
    by blast
  with Cons show ?case by simp
qed

lemma work_card_is_Card: "\<exists>props children. work_card w = Element ''Card'' props children"
  by (simp add: work_card_def)

lemma education_card_is_Card:
  "\<exists>props children. education_card e = Element ''Card'' props children"
  by (simp add: education_card_def)

lemma project_card_is_Card:
  "\<exists>props children. project_card p = Element ''Card'' props children"
  by (simp add: project_card_def)

lemma skill_badge_is_Badge: "\<exists>props children. skill_badge s = Element ''Badge'' props children"
  by (simp add: skill_badge_def)

lemma work_blocks: "blocks ''Card'' (work_section ws) = map work_card ws"
  using blocks_array_of_tagged [of work_card "''Card''" ws, OF work_card_is_Card]
  by (simp add: work_section_def)

lemma education_blocks: "blocks ''Card'' (education_section es) = map education_card es"
  using blocks_array_of_tagged [of education_card "''Card''" es, OF education_card_is_Card]
  by (simp add: education_section_def)

lemma skills_blocks: "blocks ''Badge'' (skills_section ss) = map skill_badge ss"
  using blocks_array_of_tagged [of skill_badge "''Badge''" ss, OF skill_badge_is_Badge]
  by (simp add: skills_section_def)

lemma projects_blocks: "blocks ''Card'' (projects_section ps) = map project_card ps"
  using blocks_array_of_tagged [of project_card "''Card''" ps, OF project_card_is_Card]
  by (simp add: projects_section_def)

text \<open>
  C4: each list section renders one block per entry of its list (a card per work
  entry, per education entry and per project, a badge per skill), the i-th block being
  the rendering of the i-th entry; an empty list gives a section with no block.
\<close>

theorem C4_one_block_per_entry_in_order:
  "blocks ''Card'' (work_section ws) = map work_card ws
   \<and> blocks ''Card'' (education_section es) = map education_card es
   \<and> blocks ''Badge'' (skills_section ss) = map skill_badge ss
   \<and> blocks ''Card'' (projects_section ps) = map project_card ps
   \<and> length (blocks ''Card'' (work_section ws)) = length ws
   \<and> length (blocks ''Card'' (education_section es)) = length es
   \<and> length (blocks ''Badge'' (skills_section ss)) = length ss
   \<and> length (blocks ''Card'' (projects_section ps)) = length ps
   \<and> blocks ''Card'' (work_section []) = []
   \<and> blocks ''Card'' (education_section []) = []
   \<and> blocks ''Badge'' (skills_section []) = []
   \<and> blocks ''Card'' (projects_section []) = []"
  by (simp add: work_blocks education_blocks skills_blocks projects_blocks)

section \<open>Properties of the command palette\<close>

lemma overlays_le_one: "overlays s = (if open s then 1 else 0)"
  by (simp add: overlays_def CommandMenu_def)

text \<open>
  C3, as stated: pressing modifier+K while the palette is open leaves it open. The
  listener toggles, so from the open state the key closes the palette.
\<close>

theorem C3_modK_closes_open_palette:
  "open (down modK \<lparr>open = True, effects = []\<rparr>) = False"
  by (simp add: down_def modK_def call_def setOpen_def)

text \<open>
  C3, amended: modifier+K toggles the state (an open palette closes, a closed one
  opens); whatever the state, the component renders at most one shown overlay; and
  a click on the trigger button leaves the palette open, with its one overlay.
\<close>

theorem C3_modK_toggles:
  assumes "key e = ''k''" and "metaKey e \<or> ctrlKey e"
  shows "open (down e s) = (\<not> open s) \<and> overlays (down e s) \<le> 1
         \<and> open (onClick s) \<and> overlays (onClick s) = 1"
  using assms by (simp add: down_def call_def setOpen_def onClick_def overlays_le_one)

theorem C3_modK_toggles_witness:
  "open (down modK \<lparr>open = False, effects = []\<rparr>)
   \<and> \<not> open (down modK (down modK \<lparr>open = False, effects = []\<rparr>))"
  using C3_modK_toggles [of modK "\<lparr>open = False, effects = []\<rparr>"]
    C3_modK_toggles [of modK "down modK \<lparr>open = False, effects = []\<rparr>"]
  by (simp add: modK_def)

text \<open>
  C8: selecting "Print Resume" while the palette is open closes it and calls
  \<open>window.print()\<close> once; the state changes in nothing else, and the trace of browser
  calls grows by that one call.
\<close>

theorem C8_print_closes_and_prints_once:
  assumes "open s"
  shows "onSelect PrintResume s = s\<lparr>open := False, effects := effects s @ [WindowPrint]\<rparr>"
  by (simp add: runCommand_def call_def setOpen_def)

theorem C8_print_closes_and_prints_once_witness:
  "onSelect PrintResume \<lparr>open = True, effects = []\<rparr> = \<lparr>open = False, effects = [WindowPrint]\<rparr>"
  using C8_print_closes_and_prints_once [of "\<lparr>open = True, effects = []\<rparr>"] by simp

section \<open>Properties of the heap model\<close>

subsection \<open>Lists of optional results\<close>

lemma those_map_Some:
  "those (map f xs) = Some ys \<longleftrightarrow> list_all2 (\<lambda>x y. f x = Some y) xs ys"
proof (induction xs arbitrary: ys)
  case Nil
  show ?case by auto
next
  case (Cons x xs)
  show ?case
  proof (cases "f x")
    case None
    then show ?thesis by (auto simp: list_all2_Cons1)
  next
    case (Some y)
    then show ?thesis
      using Cons.IH by (cases "those (map f xs)") (auto simp: list_all2_Cons1)
  qed
qed

subsection \<open>Cells of a heap stay where they are when the heap grows\<close>

lemma cell_at_append: "cell_at h v = Some c \<Longrightarrow> cell_at (h @ hx) v = Some c"
  by (cases v) (auto simp: cell_at_def nth_append split: if_splits)

lemma fields_append: "fields h v = Some fs \<Longrightarrow> fields (h @ hx) v = Some fs"
  by (auto simp: fields_def dest: cell_at_append [where hx = hx] split: option.splits cell.splits)

lemma elements_append: "elements h v = Some vs \<Longrightarrow> elements (h @ hx) v = Some vs"
  by (auto simp: elements_def dest: cell_at_append [where hx = hx]
      split: option.splits cell.splits)

lemma fields_is_Ref: "fields h v = Some fs \<Longrightarrow> \<exists>a. v = Ref a \<and> cell_at h (Ref a) = Some (Object fs)"
  by (cases v) (auto simp: fields_def cell_at_def split: option.splits cell.splits if_splits)

lemma elements_is_Ref:
  "elements h v = Some vs \<Longrightarrow> \<exists>a. v = Ref a \<and> cell_at h (Ref a) = Some (ArrayCell vs)"
  by (cases v) (auto simp: elements_def cell_at_def split: option.splits cell.splits if_splits)

lemma read_fields:
  assumes "fields h v = Some fs"
  shows "read v k (h @ hx) = Inr (property fs k, h @ hx)"
proof -
  from assms obtain a where "v = Ref a" and "cell_at h (Ref a) = Some (Object fs)"
    using fields_is_Ref by blast
  then show ?thesis
    using cell_at_append [of h "Ref a" "Object fs" hx] by simp
qed

lemma snapshot_append:
  "snapshot lo k h v = Some t \<Longrightarrow> snapshot lo k (h @ hx) v = Some t"
proof (induction k arbitrary: v t)
  case 0
  then show ?case by (cases v) simp_all
next
  case (Suc k)
  show ?case
  proof (cases v)
    case (Prim n)
    with Suc.prems show ?thesis by simp
  next
    case (Ref a)
    with Suc.prems have range: "lo \<le> a" "a < length h"
      by (auto split: if_splits)
    show ?thesis
    proof (cases "h ! a")
      case (Object fs)
      with Suc.prems Ref range obtain ts
        where ts: "those (map (\<lambda>f. map_option (Pair (fst f)) (snapshot lo k h (snd f))) fs) = Some ts"
          and t: "t = Record ts"
        by auto
      from ts have "list_all2 (\<lambda>f y. map_option (Pair (fst f)) (snapshot lo k h (snd f)) = Some y) fs ts"
        by (simp add: those_map_Some)
      then have "list_all2 (\<lambda>f y. map_option (Pair (fst f)) (snapshot lo k (h @ hx) (snd f)) = Some y) fs ts"
        by (rule list_all2_mono) (auto dest: Suc.IH)
      then have "those (map (\<lambda>f. map_option (Pair (fst f)) (snapshot lo k (h @ hx) (snd f))) fs) = Some ts"
        by (simp add: those_map_Some)
      with Ref range Object t show ?thesis
        by (simp add: nth_append)
    next
      case (ArrayCell vs)
      with Suc.prems Ref range obtain ts
        where ts: "those (map (snapshot lo k h) vs) = Some ts" and t: "t = List ts"
        by auto
      from ts have "list_all2 (\<lambda>v y. snapshot lo k h v = Some y) vs ts"
        by (simp add: those_map_Some)
      then have "list_all2 (\<lambda>v y. snapshot lo k (h @ hx) v = Some y) vs ts"
        by (rule list_all2_mono) (auto dest: Suc.IH)
      then have "those (map (snapshot lo k (h @ hx)) vs) = Some ts"
        by (simp add: those_map_Some)
      with Ref range ArrayCell t show ?thesis
        by (simp add: nth_append)
    qed
  qed
qed

lemma snapshot_new_object:
  assumes "list_all2 (\<lambda>f t. fst f = fst t \<and> snapshot lo k h (snd f) = Some (snd t)) fs ts"
    and "lo \<le> length h"
  shows "snapshot lo (Suc k) (h @ [Object fs]) (Ref (length h)) = Some (Record ts)"
proof -
  from assms(1)
  have "list_all2 (\<lambda>f t. map_option (Pair (fst f)) (snapshot lo k (h @ [Object fs]) (snd f)) = Some t)
          fs ts"
    by (rule list_all2_mono) (auto dest: snapshot_append [where hx = "[Object fs]"])
  then have "those (map (\<lambda>f. map_option (Pair (fst f)) (snapshot lo k (h @ [Object fs]) (snd f))) fs)
               = Some ts"
    by (simp add: those_map_Some)
  with assms(2) show ?thesis by simp
qed

lemma snapshot_new_array:
  assumes "list_all2 (\<lambda>v t. snapshot lo k h v = Some t) vs ts" and "lo \<le> length h"
  shows "snapshot lo (Suc k) (h @ [ArrayCell vs]) (Ref (length h)) = Some (List ts)"
proof -
  from assms(1)
  have "list_all2 (\<lambda>v t. snapshot lo k (h @ [ArrayCell vs]) v = Some t) vs ts"
    by (rule list_all2_mono) (auto dest: snapshot_append [where hx = "[ArrayCell vs]"])
  then have "those (map (snapshot lo k (h @ [ArrayCell vs])) vs) = Some ts"
    by (simp add: those_map_Some)
  with assms(2) show ?thesis by simp
qed

subsection \<open>What the building blocks yield\<close>

lemma yields_return: "yields lo k (return (Prim n)) h (Atom n)"
  by (simp add: yields_def return_def)

lemma yields_read:
  assumes "fields h v = Some fs" and "property fs q = Prim n"
  shows "yields lo k (read v q) h (Atom n)"
  using assms by (simp add: yields_def read_fields)

lemma yields_bind_read:
  assumes "fields h v = Some fs" and "yields lo k (g (property fs q)) h t"
  shows "yields lo k (bind (read v q) g) h t"
  using assms by (simp add: yields_def bind_def read_fields)

lemma each_yields:
  assumes "list_all2 (\<lambda>v t. yields lo k (f v) h t) vs ts"
  shows "\<exists>rs hy. each f vs (h @ hx) = Inr (rs, h @ hx @ hy)
           \<and> list_all2 (\<lambda>r t. snapshot lo k (h @ hx @ hy) r = Some t) rs ts"
  using assms
proof (induction vs ts arbitrary: hx rule: list_all2_induct)
  case Nil
  show ?case by (simp add: return_def)
next
  case (Cons v vs t ts)
  from Cons.hyps(1) obtain r hy
    where first: "f v (h @ hx) = Inr (r, h @ hx @ hy)"
      and r: "snapshot lo k (h @ hx @ hy) r = Some t"
    unfolding yields_def by blast
  from Cons.IH [of "hx @ hy"] obtain rs hz
    where rest: "each f vs (h @ hx @ hy) = Inr (rs, h @ hx @ hy @ hz)"
      and rs: "list_all2 (\<lambda>r t. snapshot lo k (h @ hx @ hy @ hz) r = Some t) rs ts"
    by auto
  from r have "snapshot lo k (h @ hx @ hy @ hz) r = Some t"
    using snapshot_append [of lo k "h @ hx @ hy" r t hz] by simp
  with first rest rs show ?case
    by (intro exI [of _ "r # rs"] exI [of _ "hy @ hz"]) (simp add: bind_def return_def)
qed

lemma yields_array_map:
  assumes "elements h arr = Some vs"
    and "list_all2 (\<lambda>v t. yields lo k (f v) h t) vs ts"
    and "lo \<le> length h"
  shows "yields lo (Suc k) (array_map f arr) h (List ts)"
  unfolding yields_def
proof
  fix hx
  from assms(1) obtain a where arr: "arr = Ref a"
    and cell: "cell_at h (Ref a) = Some (ArrayCell vs)"
    using elements_is_Ref by blast
  from cell have cell': "cell_at (h @ hx) (Ref a) = Some (ArrayCell vs)"
    by (rule cell_at_append)
  from each_yields [OF assms(2), of hx] obtain rs hy
    where run: "each f vs (h @ hx) = Inr (rs, h @ hx @ hy)"
      and rs: "list_all2 (\<lambda>r t. snapshot lo k (h @ hx @ hy) r = Some t) rs ts"
    by blast
  from assms(3) have "lo \<le> length (h @ hx @ hy)" by simp
  with rs have "snapshot lo (Suc k) ((h @ hx @ hy) @ [ArrayCell rs]) (Ref (length (h @ hx @ hy)))
                  = Some (List ts)"
    by (rule snapshot_new_array)
  with arr cell' run
  show "\<exists>r hy. array_map f arr (h @ hx) = Inr (r, h @ hx @ hy)
          \<and> snapshot lo (Suc k) (h @ hx @ hy) r = Some (List ts)"
    by (intro exI [of _ "Ref (length (h @ hx @ hy))"] exI [of _ "hy @ [ArrayCell rs]"])
      (simp add: bind_def new_array_def)
qed

lemma str_Some: "str v = Some s \<longleftrightarrow> v = Prim (Text s)"
  by (induction v rule: str.induct) auto

lemma boolean_Some: "boolean v = Some b \<longleftrightarrow> v = Prim (Boolean b)"
  by (induction v rule: boolean.induct) auto

lemma any_node_Some: "any_node v = Some n \<longleftrightarrow> v = Prim n"
  by (cases v) auto

lemma opt_Some_None: "opt f v = Some None \<longleftrightarrow> v = Prim Undefined"
  by (induction f v rule: opt.induct) auto

lemma opt_Some_Some: "opt f v = Some (Some x) \<longleftrightarrow> v \<noteq> Prim Undefined \<and> f v = Some x"
  by (induction f v rule: opt.induct) auto

lemma array_of_Some:
  "array_of f h v = Some xs \<longleftrightarrow>
     (\<exists>vs. elements h v = Some vs \<and> list_all2 (\<lambda>v x. f v = Some x) vs xs)"
  by (auto simp: array_of_def those_map_Some bind_eq_Some_conv)

lemma yields_Array_from:
  assumes "array_of str h arr = Some ss" and "lo \<le> length h"
  shows "yields lo (Suc k) (Array_from_heap arr) h (strings ss)"
  unfolding yields_def
proof
  fix hx
  from assms(1) obtain vs where vs: "elements h arr = Some vs"
    and strs: "list_all2 (\<lambda>v s. str v = Some s) vs ss"
    by (auto simp: array_of_Some)
  from vs obtain a where arr: "arr = Ref a"
    and cell: "cell_at h (Ref a) = Some (ArrayCell vs)"
    using elements_is_Ref by blast
  from cell have cell': "cell_at (h @ hx) (Ref a) = Some (ArrayCell vs)"
    by (rule cell_at_append)
  from strs have "list_all2 (\<lambda>v t. snapshot lo k (h @ hx) v = Some t) vs (map (\<lambda>s. Atom (Text s)) ss)"
    by (auto simp: list_all2_map2 str_Some elim!: list_all2_mono)
  moreover from assms(2) have "lo \<le> length (h @ hx)" by simp
  ultimately have "snapshot lo (Suc k) ((h @ hx) @ [ArrayCell vs]) (Ref (length (h @ hx)))
                     = Some (strings ss)"
    unfolding strings_def by (rule snapshot_new_array)
  with arr cell'
  show "\<exists>r hy. Array_from_heap arr (h @ hx) = Inr (r, h @ hx @ hy)
          \<and> snapshot lo (Suc k) (h @ hx @ hy) r = Some (strings ss)"
    by (intro exI [of _ "Ref (length (h @ hx))"] exI [of _ "[ArrayCell vs]"])
      (simp add: new_array_def)
qed

lemma properties_yields:
  assumes "list_all2 (\<lambda>p t. fst p = fst t \<and> yields lo k (snd p) h (snd t)) ps ts"
  shows "\<exists>fs hy. properties ps (h @ hx) = Inr (fs, h @ hx @ hy)
           \<and> list_all2 (\<lambda>f t. fst f = fst t \<and> snapshot lo k (h @ hx @ hy) (snd f) = Some (snd t))
               fs ts"
  using assms
proof (induction ps ts arbitrary: hx rule: list_all2_induct)
  case Nil
  show ?case by (simp add: return_def)
next
  case (Cons p ps t ts)
  from Cons.hyps(1) obtain r hy
    where key: "fst p = fst t"
      and first: "snd p (h @ hx) = Inr (r, h @ hx @ hy)"
      and r: "snapshot lo k (h @ hx @ hy) r = Some (snd t)"
    unfolding yields_def by blast
  from Cons.IH [of "hx @ hy"] obtain fs hz
    where rest: "properties ps (h @ hx @ hy) = Inr (fs, h @ hx @ hy @ hz)"
      and fs: "list_all2 (\<lambda>f t. fst f = fst t
                 \<and> snapshot lo k (h @ hx @ hy @ hz) (snd f) = Some (snd t)) fs ts"
    by auto
  from r have "snapshot lo k (h @ hx @ hy @ hz) r = Some (snd t)"
    using snapshot_append [of lo k "h @ hx @ hy" r "snd t" hz] by simp
  with key first rest fs show ?case
    by (intro exI [of _ "(fst p, r) # fs"] exI [of _ "hy @ hz"]) (simp add: bind_def return_def)
qed

lemma yields_literal:
  assumes "list_all2 (\<lambda>p t. fst p = fst t \<and> yields lo k (snd p) h (snd t)) ps ts"
    and "lo \<le> length h"
  shows "yields lo (Suc k) (literal ps) h (Record ts)"
  unfolding yields_def
proof
  fix hx
  from properties_yields [OF assms(1), of hx] obtain fs hy
    where run: "properties ps (h @ hx) = Inr (fs, h @ hx @ hy)"
      and fs: "list_all2 (\<lambda>f t. fst f = fst t \<and> snapshot lo k (h @ hx @ hy) (snd f) = Some (snd t))
                 fs ts"
    by blast
  from assms(2) have "lo \<le> length (h @ hx @ hy)" by simp
  with fs have "snapshot lo (Suc k) ((h @ hx @ hy) @ [Object fs]) (Ref (length (h @ hx @ hy)))
                  = Some (Record ts)"
    by (rule snapshot_new_object)
  with run
  show "\<exists>r hy. literal ps (h @ hx) = Inr (r, h @ hx @ hy)
          \<and> snapshot lo (Suc k) (h @ hx @ hy) r = Some (Record ts)"
    by (intro exI [of _ "Ref (length (h @ hx @ hy))"] exI [of _ "hy @ [Object fs]"])
      (simp add: literal_def bind_def new_object_def)
qed

subsection \<open>What a well-formed argument has in the heap\<close>

lemma opt_boolean_Some:
  "opt boolean v = Some b \<Longrightarrow> v = Prim (case b of None \<Rightarrow> Undefined | Some x \<Rightarrow> Boolean x)"
  by (cases b) (auto simp: opt_Some_None opt_Some_Some boolean_Some)

lemma opt_str_Some:
  "opt str v = Some s \<Longrightarrow> v = Prim (case s of None \<Rightarrow> Undefined | Some x \<Rightarrow> Text x)"
  by (cases s) (auto simp: opt_Some_None opt_Some_Some str_Some)

lemma Atom_optional: "Atom (case v of None \<Rightarrow> Undefined | Some x \<Rightarrow> f x) = optional f v"
  by (simp add: optional_def split: option.splits)

lemma repr_Social_fields:
  assumes "repr_Social h v = Some x"
  obtains fs where "fields h v = Some fs"
    and "property fs ''name'' = Prim (Text (Social.name x))"
    and "property fs ''url'' = Prim (Text (Social.url x))"
    and "property fs ''navbar'' =
           Prim (case Social.navbar x of None \<Rightarrow> Undefined | Some b \<Rightarrow> Boolean b)"
  using assms unfolding repr_Social_def
  by (auto simp: bind_eq_Some_conv str_Some dest!: opt_boolean_Some)

lemma repr_Education_fields:
  assumes "repr_Education h v = Some x"
  obtains fs where "fields h v = Some fs"
    and "property fs ''school'' = Prim (Text (Education.school x))"
    and "property fs ''degree'' = Prim (Text (Education.degree x))"
    and "property fs ''start'' = Prim (Text (Education.start x))"
    and "property fs ''end'' = Prim (Text (Education.end x))"
    and "property fs ''link'' =
           Prim (case Education.link x of None \<Rightarrow> Undefined | Some s \<Rightarrow> Text s)"
  using assms unfolding repr_Education_def
  by (auto simp: bind_eq_Some_conv str_Some dest!: opt_str_Some)

lemma repr_ProjectLink_fields:
  assumes "repr_ProjectLink h v = Some x"
  obtains fs where "fields h v = Some fs"
    and "property fs ''type'' = Prim (Text (ProjectLink.type x))"
    and "property fs ''href'' = Prim (Text (ProjectLink.href x))"
  using assms unfolding repr_ProjectLink_def
  by (auto simp: bind_eq_Some_conv str_Some)

lemma repr_Work_fields:
  assumes "repr_Work h v = Some x"
  obtains fs where "fields h v = Some fs"
    and "property fs ''company'' = Prim (Text (Work.company x))"
    and "property fs ''title'' = Prim (Text (Work.title x))"
    and "property fs ''start'' = Prim (Text (Work.start x))"
    and "property fs ''end'' = Prim (Text (Work.end x))"
    and "property fs ''description'' = Prim (Text (Work.description x))"
    and "property fs ''link'' =
           Prim (case Work.link x of None \<Rightarrow> Undefined | Some s \<Rightarrow> Text s)"
    and "opt (array_of str h) (property fs ''badges'') = Some (Work.badges x)"
  using assms unfolding repr_Work_def
  by (auto simp: bind_eq_Some_conv str_Some dest!: opt_str_Some)

lemma repr_Project_fields:
  assumes "repr_Project h v = Some x"
  obtains fs where "fields h v = Some fs"
    and "property fs ''title'' = Prim (Text (Project.title x))"
    and "property fs ''href'' =
           Prim (case Project.href x of None \<Rightarrow> Undefined | Some s \<Rightarrow> Text s)"
    and "property fs ''dates'' = Prim (Text (Project.dates x))"
    and "property fs ''active'' = Prim (Boolean (Project.active x))"
    and "property fs ''description'' = Prim (Text (Project.description x))"
    and "array_of str h (property fs ''technologies'') = Some (Project.technologies x)"
    and "array_of (repr_ProjectLink h) h (property fs ''links'') = Some (Project.links x)"
    and "property fs ''image'' =
           Prim (case Project.image x of None \<Rightarrow> Undefined | Some s \<Rightarrow> Text s)"
    and "property fs ''video'' =
           Prim (case Project.video x of None \<Rightarrow> Undefined | Some s \<Rightarrow> Text s)"
  using assms unfolding repr_Project_def
  by (auto simp: bind_eq_Some_conv str_Some boolean_Some dest!: opt_str_Some)

lemma repr_Contact_fields:
  assumes "repr_Contact h v = Some x"
  obtains fs where "fields h v = Some fs"
    and "property fs ''email'' = Prim (Text (Contact.email x))"
    and "property fs ''tel'' = Prim (Text (Contact.tel x))"
    and "array_of (repr_Social h) h (property fs ''social'') = Some (Contact.social x)"
  using assms unfolding repr_Contact_def
  by (auto simp: bind_eq_Some_conv str_Some)

lemma repr_ResumeData_fields:
  assumes "repr_ResumeData h v = Some x"
  obtains fs where "fields h v = Some fs"
    and "property fs ''name'' = Prim (Text (ResumeData.name x))"
    and "property fs ''initials'' = Prim (Text (ResumeData.initials x))"
    and "property fs ''location'' = Prim (Text (ResumeData.location x))"
    and "property fs ''locationLink'' = Prim (Text (ResumeData.locationLink x))"
    and "property fs ''about'' = Prim (Text (ResumeData.about x))"
    and "property fs ''summary'' = Prim (ResumeData.summary x)"
    and "property fs ''avatarUrl'' = Prim (Text (ResumeData.avatarUrl x))"
    and "property fs ''personalWebsiteUrl'' = Prim (Text (ResumeData.personalWebsiteUrl x))"
    and "repr_Contact h (property fs ''contact'') = Some (ResumeData.contact x)"
    and "array_of (repr_Education h) h (property fs ''education'') = Some (ResumeData.education x)"
    and "array_of (repr_Work h) h (property fs ''work'') = Some (ResumeData.work x)"
    and "array_of str h (property fs ''skills'') = Some (ResumeData.skills x)"
    and "array_of (repr_Project h) h (property fs ''projects'') = Some (ResumeData.projects x)"
  using assms unfolding repr_ResumeData_def
  by (auto simp: bind_eq_Some_conv str_Some any_node_Some)

subsection \<open>The projection of each record\<close>

lemma yields_elements:
  assumes "array_of repr h arr = Some xs"
    and "\<And>v x. repr v = Some x \<Longrightarrow> yields lo k (f v) h (g x)"
    and "lo \<le> length h"
  shows "yields lo (Suc k) (array_map f arr) h (List (map g xs))"
proof -
  from assms(1) obtain vs where vs: "elements h arr = Some vs"
    and all: "list_all2 (\<lambda>v x. repr v = Some x) vs xs"
    by (auto simp: array_of_Some)
  from all have "list_all2 (\<lambda>v t. yields lo k (f v) h t) vs (map g xs)"
    by (auto simp: list_all2_map2 intro: assms(2) elim!: list_all2_mono)
  with vs show ?thesis
    using assms(3) by (rule yields_array_map)
qed

lemma yields_social:
  assumes "repr_Social h v = Some x" and "lo \<le> length h"
  shows "yields lo (Suc k) (social_heap v) h
           (Social_value \<lparr>Social_gql.name = Social.name x, url = Social.url x,
                          navbar = Social.navbar x\<rparr>)"
proof -
  from assms(1) obtain fs where "fields h v = Some fs"
    and "property fs ''name'' = Prim (Text (Social.name x))"
    and "property fs ''url'' = Prim (Text (Social.url x))"
    and "property fs ''navbar'' =
           Prim (case Social.navbar x of None \<Rightarrow> Undefined | Some b \<Rightarrow> Boolean b)"
    by (rule repr_Social_fields)
  then show ?thesis
    unfolding social_heap_def Social_value_def
    by (intro yields_literal assms(2)) (simp add: yields_read flip: Atom_optional)
qed

lemma yields_education:
  assumes "repr_Education h v = Some x" and "lo \<le> length h"
  shows "yields lo (Suc k) (education_heap v) h
           (Education_value \<lparr>Education_gql.school = Education.school x,
                             degree = Education.degree x, start = Education.start x,
                             end = Education.end x, link = Education.link x\<rparr>)"
proof -
  from assms(1) obtain fs where "fields h v = Some fs"
    and "property fs ''school'' = Prim (Text (Education.school x))"
    and "property fs ''degree'' = Prim (Text (Education.degree x))"
    and "property fs ''start'' = Prim (Text (Education.start x))"
    and "property fs ''end'' = Prim (Text (Education.end x))"
    and "property fs ''link'' =
           Prim (case Education.link x of None \<Rightarrow> Undefined | Some s \<Rightarrow> Text s)"
    by (rule repr_Education_fields)
  then show ?thesis
    unfolding education_heap_def Education_value_def
    by (intro yields_literal assms(2)) (simp add: yields_read flip: Atom_optional)
qed

lemma yields_link:
  assumes "repr_ProjectLink h v = Some x" and "lo \<le> length h"
  shows "yields lo (Suc k) (link_heap v) h
           (Link_value \<lparr>Link.type = ProjectLink.type x, href = ProjectLink.href x\<rparr>)"
proof -
  from assms(1) obtain fs where "fields h v = Some fs"
    and "property fs ''type'' = Prim (Text (ProjectLink.type x))"
    and "property fs ''href'' = Prim (Text (ProjectLink.href x))"
    by (rule repr_ProjectLink_fields)
  then show ?thesis
    unfolding link_heap_def Link_value_def
    by (intro yields_literal assms(2)) (simp add: yields_read)
qed

lemma yields_badges:
  assumes "fields h w = Some fs"
    and "opt (array_of str h) (property fs ''badges'') = Some bs"
    and "lo \<le> length h"
  shows "yields lo (Suc k)
           (bind (read w ''badges'') (\<lambda>b.
              if truthy_val b then bind (read w ''badges'') Array_from_heap
              else return (Prim Undefined))) h
           (case bs of None \<Rightarrow> Atom Undefined | Some ss \<Rightarrow> strings (Array_from ss))"
proof (cases bs)
  case None
  with assms(2) have "property fs ''badges'' = Prim Undefined"
    by (simp add: opt_Some_None)
  with None show ?thesis
    by (intro yields_bind_read [OF assms(1)]) (simp add: yields_return)
next
  case (Some ss)
  with assms(2) have arr: "array_of str h (property fs ''badges'') = Some ss"
    by (simp add: opt_Some_Some)
  then obtain vs where "elements h (property fs ''badges'') = Some vs"
    by (auto simp: array_of_Some)
  then obtain a where ref: "property fs ''badges'' = Ref a"
    using elements_is_Ref by blast
  have "yields lo (Suc k) (bind (read w ''badges'') Array_from_heap) h (strings ss)"
    by (rule yields_bind_read [OF assms(1)]) (rule yields_Array_from [OF arr assms(3)])
  with Some ref show ?thesis
    by (intro yields_bind_read [OF assms(1)]) (simp add: Array_from_id)
qed

lemma yields_work:
  assumes "repr_Work h v = Some x" and "lo \<le> length h"
  shows "yields lo (Suc (Suc k)) (work_heap v) h
           (Work_value \<lparr>Work_gql.company = Work.company x, title = Work.title x,
                        start = Work.start x, end = Work.end x,
                        description = Work.description x, link = Work.link x,
                        badges = (case Work.badges x of
                                    Some bs \<Rightarrow> Some (Array_from bs)
                                  | None \<Rightarrow> None)\<rparr>)"
proof -
  from assms(1) obtain fs where fs: "fields h v = Some fs"
    and prims: "property fs ''company'' = Prim (Text (Work.company x))"
      "property fs ''title'' = Prim (Text (Work.title x))"
      "property fs ''start'' = Prim (Text (Work.start x))"
      "property fs ''end'' = Prim (Text (Work.end x))"
      "property fs ''description'' = Prim (Text (Work.description x))"
      "property fs ''link'' =
         Prim (case Work.link x of None \<Rightarrow> Undefined | Some s \<Rightarrow> Text s)"
    and badges: "opt (array_of str h) (property fs ''badges'') = Some (Work.badges x)"
    by (rule repr_Work_fields)
  have badges_value: "(case (case Work.badges x of Some bs \<Rightarrow> Some (Array_from bs) | None \<Rightarrow> None) of
                  None \<Rightarrow> Atom Undefined | Some bs \<Rightarrow> strings bs)
               = (case Work.badges x of None \<Rightarrow> Atom Undefined
                  | Some ss \<Rightarrow> strings (Array_from ss))"
    by (simp split: option.splits)
  from fs prims yields_badges [OF fs badges assms(2), of k] show ?thesis
    unfolding work_heap_def Work_value_def
    by (intro yields_literal assms(2)) (simp add: yields_read badges_value flip: Atom_optional)
qed

lemma yields_project:
  assumes "repr_Project h v = Some x" and "lo \<le> length h"
  shows "yields lo (Suc (Suc (Suc k))) (project_heap v) h
           (Project_value
              \<lparr>Project_gql.title = Project.title x, href = Project.href x,
               dates = Project.dates x, active = Project.active x,
               description = Project.description x,
               technologies = Array_from (Project.technologies x),
               links = map (\<lambda>link. \<lparr>Link.type = ProjectLink.type link,
                                     href = ProjectLink.href link\<rparr>) (Project.links x),
               image = Project.image x, video = Project.video x\<rparr>)"
proof -
  from assms(1) obtain fs where fs: "fields h v = Some fs"
    and prims: "property fs ''title'' = Prim (Text (Project.title x))"
      "property fs ''href'' =
         Prim (case Project.href x of None \<Rightarrow> Undefined | Some s \<Rightarrow> Text s)"
      "property fs ''dates'' = Prim (Text (Project.dates x))"
      "property fs ''active'' = Prim (Boolean (Project.active x))"
      "property fs ''description'' = Prim (Text (Project.description x))"
      "property fs ''image'' =
         Prim (case Project.image x of None \<Rightarrow> Undefined | Some s \<Rightarrow> Text s)"
      "property fs ''video'' =
         Prim (case Project.video x of None \<Rightarrow> Undefined | Some s \<Rightarrow> Text s)"
    and technologies:
      "array_of str h (property fs ''technologies'') = Some (Project.technologies x)"
    and links:
      "array_of (repr_ProjectLink h) h (property fs ''links'') = Some (Project.links x)"
    by (rule repr_Project_fields)
  have tech: "yields lo (Suc (Suc k)) (bind (read v ''technologies'') Array_from_heap) h
                (strings (Array_from (Project.technologies x)))"
    using technologies assms(2)
    by (intro yields_bind_read [OF fs]) (simp add: yields_Array_from Array_from_id)
  have "yields lo (Suc (Suc k)) (array_map link_heap (property fs ''links'')) h
          (List (map (\<lambda>l. Link_value \<lparr>Link.type = ProjectLink.type l,
                                       href = ProjectLink.href l\<rparr>) (Project.links x)))"
    by (rule yields_elements [OF links _ assms(2)]) (rule yields_link [OF _ assms(2)])
  with fs have lnks: "yields lo (Suc (Suc k)) (bind (read v ''links'') (array_map link_heap)) h
          (List (map (\<lambda>l. Link_value \<lparr>Link.type = ProjectLink.type l,
                                       href = ProjectLink.href l\<rparr>) (Project.links x)))"
    by (rule yields_bind_read)
  from fs prims tech lnks show ?thesis
    unfolding project_heap_def Project_value_def
    by (intro yields_literal assms(2))
      (simp add: yields_read comp_def flip: Atom_optional)
qed

lemma reactNodeToString_val_Prim:
  "reactNodeToString_val (Prim n) = Prim (Text (reactNodeToString n))"
  by (cases n) simp_all

lemma yields_summary:
  assumes "fields h v = Some fs" and "property fs ''summary'' = Prim n"
  shows "yields lo k
           (bind (read v ''summary'') (\<lambda>s.
              if typeof_val s = ''string'' then read v ''summary''
              else bind (read v ''summary'') (\<lambda>node. return (reactNodeToString_val node)))) h
           (Atom (Text (if typeof n = ''string'' then string_of n else reactNodeToString n)))"
proof (cases "typeof n = ''string''")
  case True
  then obtain s where "n = Text s"
    by (auto simp: typeof_string)
  with assms(2) show ?thesis
    by (intro yields_bind_read [OF assms(1)]) (simp add: yields_read [OF assms(1)])
next
  case False
  have "yields lo k (bind (read v ''summary'') (\<lambda>node. return (reactNodeToString_val node))) h
          (Atom (Text (reactNodeToString n)))"
    using assms(2)
    by (intro yields_bind_read [OF assms(1)]) (simp add: reactNodeToString_val_Prim yields_return)
  with False assms(2) show ?thesis
    by (intro yields_bind_read [OF assms(1)]) simp
qed

lemma yields_contact:
  assumes "fields h v = Some fs"
    and "repr_Contact h (property fs ''contact'') = Some c"
    and "lo \<le> length h"
  shows "yields lo (Suc (Suc (Suc k)))
           (literal [(''email'', bind (read v ''contact'') (\<lambda>c. read c ''email'')),
                     (''tel'', bind (read v ''contact'') (\<lambda>c. read c ''tel'')),
                     (''social'',
                        bind (bind (read v ''contact'') (\<lambda>c. read c ''social''))
                          (array_map social_heap))]) h
           (Contact_value
              \<lparr>Contact_gql.email = Contact.email c, tel = Contact.tel c,
               social = map (\<lambda>s. \<lparr>Social_gql.name = Social.name s, url = Social.url s,
                                   navbar = Social.navbar s\<rparr>) (Contact.social c)\<rparr>)"
proof -
  from assms(2) obtain cfs where cfs: "fields h (property fs ''contact'') = Some cfs"
    and email: "property cfs ''email'' = Prim (Text (Contact.email c))"
    and tel: "property cfs ''tel'' = Prim (Text (Contact.tel c))"
    and social: "array_of (repr_Social h) h (property cfs ''social'') = Some (Contact.social c)"
    by (rule repr_Contact_fields)
  have e: "yields lo (Suc (Suc k)) (bind (read v ''contact'') (\<lambda>c. read c ''email'')) h
             (Atom (Text (Contact.email c)))"
    by (rule yields_bind_read [OF assms(1)]) (rule yields_read [OF cfs email])
  have t: "yields lo (Suc (Suc k)) (bind (read v ''contact'') (\<lambda>c. read c ''tel'')) h
             (Atom (Text (Contact.tel c)))"
    by (rule yields_bind_read [OF assms(1)]) (rule yields_read [OF cfs tel])
  have "yields lo (Suc (Suc k)) (array_map social_heap (property cfs ''social'')) h
          (List (map (\<lambda>s. Social_value \<lparr>Social_gql.name = Social.name s, url = Social.url s,
                                         navbar = Social.navbar s\<rparr>) (Contact.social c)))"
    by (rule yields_elements [OF social _ assms(3)]) (rule yields_social [OF _ assms(3)])
  then have s: "yields lo (Suc (Suc k))
                  (bind (bind (read v ''contact'') (\<lambda>c. read c ''social''))
                     (array_map social_heap)) h
          (List (map (\<lambda>s. Social_value \<lparr>Social_gql.name = Social.name s, url = Social.url s,
                                         navbar = Social.navbar s\<rparr>) (Contact.social c)))"
    using assms(1) cfs by (simp add: yields_def bind_def read_fields)
  from e t s show ?thesis
    unfolding Contact_value_def
    by (intro yields_literal assms(3)) (simp add: comp_def)
qed

text \<open>
  The run on the heap computes the projection of the value model: from a well-formed
  argument it yields the structure of \<open>resumeDataToGraphQL\<close> of the record.
\<close>

lemma yields_resumeDataToGraphQL:
  assumes "repr_ResumeData h v = Some d" and "lo \<le> length h"
  shows "yields lo (Suc (Suc (Suc (Suc (Suc k))))) (resumeDataToGraphQL_heap v) h
           (Me_value (resumeDataToGraphQL d))"
proof -
  from assms(1) obtain fs where fs: "fields h v = Some fs"
    and prims: "property fs ''name'' = Prim (Text (ResumeData.name d))"
      "property fs ''initials'' = Prim (Text (ResumeData.initials d))"
      "property fs ''location'' = Prim (Text (ResumeData.location d))"
      "property fs ''locationLink'' = Prim (Text (ResumeData.locationLink d))"
      "property fs ''about'' = Prim (Text (ResumeData.about d))"
      "property fs ''avatarUrl'' = Prim (Text (ResumeData.avatarUrl d))"
      "property fs ''personalWebsiteUrl'' = Prim (Text (ResumeData.personalWebsiteUrl d))"
    and summary: "property fs ''summary'' = Prim (ResumeData.summary d)"
    and contact: "repr_Contact h (property fs ''contact'') = Some (ResumeData.contact d)"
    and education:
      "array_of (repr_Education h) h (property fs ''education'') = Some (ResumeData.education d)"
    and work: "array_of (repr_Work h) h (property fs ''work'') = Some (ResumeData.work d)"
    and skills: "array_of str h (property fs ''skills'') = Some (ResumeData.skills d)"
    and projects:
      "array_of (repr_Project h) h (property fs ''projects'') = Some (ResumeData.projects d)"
    by (rule repr_ResumeData_fields)
  note s = yields_summary [OF fs summary, of lo "Suc (Suc (Suc (Suc k)))"]
  note c = yields_contact [OF fs contact assms(2), of "Suc k"]
  have e: "yields lo (Suc (Suc (Suc (Suc k))))
             (bind (read v ''education'') (array_map education_heap)) h
             (List (map (\<lambda>edu. Education_value
                \<lparr>Education_gql.school = Education.school edu, degree = Education.degree edu,
                 start = Education.start edu, end = Education.end edu,
                 link = Education.link edu\<rparr>) (ResumeData.education d)))"
    by (rule yields_bind_read [OF fs], rule yields_elements [OF education _ assms(2)])
      (rule yields_education [OF _ assms(2)])
  have w: "yields lo (Suc (Suc (Suc (Suc k))))
             (bind (read v ''work'') (array_map work_heap)) h
             (List (map (\<lambda>w. Work_value
                \<lparr>Work_gql.company = Work.company w, title = Work.title w,
                 start = Work.start w, end = Work.end w,
                 description = Work.description w, link = Work.link w,
                 badges = (case Work.badges w of
                             Some bs \<Rightarrow> Some (Array_from bs)
                           | None \<Rightarrow> None)\<rparr>) (ResumeData.work d)))"
    by (rule yields_bind_read [OF fs], rule yields_elements [OF work _ assms(2)])
      (rule yields_work [OF _ assms(2)])
  have k: "yields lo (Suc (Suc (Suc (Suc k))))
             (bind (read v ''skills'') Array_from_heap) h
             (strings (Array_from (ResumeData.skills d)))"
    using skills
    by (intro yields_bind_read [OF fs]) (simp add: yields_Array_from assms(2) Array_from_id)
  have p: "yields lo (Suc (Suc (Suc (Suc k))))
             (bind (read v ''projects'') (array_map project_heap)) h
             (List (map (\<lambda>p. Project_value
                \<lparr>Project_gql.title = Project.title p, href = Project.href p,
                 dates = Project.dates p, active = Project.active p,
                 description = Project.description p,
                 technologies = Array_from (Project.technologies p),
                 links = map (\<lambda>link. \<lparr>Link.type = ProjectLink.type link,
                                       href = ProjectLink.href link\<rparr>) (Project.links p),
                 image = Project.image p, video = Project.video p\<rparr>)
               (ResumeData.projects d)))"
    by (rule yields_bind_read [OF fs], rule yields_elements [OF projects _ assms(2)])
      (rule yields_project [OF _ assms(2)])
  from fs prims s c e w k p show ?thesis
    unfolding resumeDataToGraphQL_heap_def Me_value_def resumeDataToGraphQL_def
    by (intro yields_literal assms(2)) (simp add: yields_read comp_def)
qed

subsection \<open>A well-formed argument stays well-formed when the heap grows\<close>

lemma array_of_append:
  assumes "array_of f h v = Some xs" and "\<And>u x. f u = Some x \<Longrightarrow> g u = Some x"
  shows "array_of g (h @ hx) v = Some xs"
proof -
  from assms(1) obtain vs where vs: "elements h v = Some vs"
    and all: "list_all2 (\<lambda>u x. f u = Some x) vs xs"
    by (auto simp: array_of_Some)
  from all have "list_all2 (\<lambda>u x. g u = Some x) vs xs"
    by (rule list_all2_mono) (rule assms(2))
  with elements_append [OF vs, of hx] show ?thesis
    by (auto simp: array_of_Some)
qed

lemma opt_array_of_append:
  assumes "opt (array_of f h) v = Some xs"
  shows "opt (array_of f (h @ hx)) v = Some xs"
proof (cases xs)
  case None
  with assms show ?thesis by (simp add: opt_Some_None)
next
  case (Some ys)
  with assms have "v \<noteq> Prim Undefined" and "array_of f h v = Some ys"
    by (simp_all add: opt_Some_Some)
  with Some show ?thesis
    using array_of_append [of f h v ys f hx] by (simp add: opt_Some_Some)
qed

lemma array_of_str_append:
  "array_of str h v = Some xs \<Longrightarrow> array_of str (h @ hx) v = Some xs"
  by (rule array_of_append)

lemma repr_Social_append: "repr_Social h v = Some x \<Longrightarrow> repr_Social (h @ hx) v = Some x"
  unfolding repr_Social_def
  by (auto simp: bind_eq_Some_conv fields_append)

lemma repr_Education_append:
  "repr_Education h v = Some x \<Longrightarrow> repr_Education (h @ hx) v = Some x"
  unfolding repr_Education_def
  by (auto simp: bind_eq_Some_conv fields_append)

lemma repr_ProjectLink_append:
  "repr_ProjectLink h v = Some x \<Longrightarrow> repr_ProjectLink (h @ hx) v = Some x"
  unfolding repr_ProjectLink_def
  by (auto simp: bind_eq_Some_conv fields_append)

lemma repr_Work_append: "repr_Work h v = Some x \<Longrightarrow> repr_Work (h @ hx) v = Some x"
  unfolding repr_Work_def
  by (auto simp: bind_eq_Some_conv fields_append opt_array_of_append)

lemma array_of_ProjectLink_append:
  "array_of (repr_ProjectLink h) h v = Some xs
   \<Longrightarrow> array_of (repr_ProjectLink (h @ hx)) (h @ hx) v = Some xs"
  by (erule array_of_append) (rule repr_ProjectLink_append)

lemma repr_Project_append: "repr_Project h v = Some x \<Longrightarrow> repr_Project (h @ hx) v = Some x"
  unfolding repr_Project_def
  by (auto simp: bind_eq_Some_conv fields_append array_of_str_append array_of_ProjectLink_append)

lemma array_of_Social_append:
  "array_of (repr_Social h) h v = Some xs
   \<Longrightarrow> array_of (repr_Social (h @ hx)) (h @ hx) v = Some xs"
  by (erule array_of_append) (rule repr_Social_append)

lemma repr_Contact_append: "repr_Contact h v = Some x \<Longrightarrow> repr_Contact (h @ hx) v = Some x"
  unfolding repr_Contact_def
  by (auto simp: bind_eq_Some_conv fields_append array_of_Social_append)

lemma array_of_Education_append:
  "array_of (repr_Education h) h v = Some xs
   \<Longrightarrow> array_of (repr_Education (h @ hx)) (h @ hx) v = Some xs"
  by (erule array_of_append) (rule repr_Education_append)

lemma array_of_Work_append:
  "array_of (repr_Work h) h v = Some xs
   \<Longrightarrow> array_of (repr_Work (h @ hx)) (h @ hx) v = Some xs"
  by (erule array_of_append) (rule repr_Work_append)

lemma array_of_Project_append:
  "array_of (repr_Project h) h v = Some xs
   \<Longrightarrow> array_of (repr_Project (h @ hx)) (h @ hx) v = Some xs"
  by (erule array_of_append) (rule repr_Project_append)

lemma repr_ResumeData_append:
  "repr_ResumeData h v = Some x \<Longrightarrow> repr_ResumeData (h @ hx) v = Some x"
  unfolding repr_ResumeData_def
  by (auto simp: bind_eq_Some_conv fields_append repr_Contact_append array_of_str_append
      array_of_Education_append array_of_Work_append array_of_Project_append)

subsection \<open>The projection on the heap\<close>

lemma projection_on_heap:
  assumes "repr_ResumeData h data = Some d" and "lo \<le> length h"
  shows "\<exists>me hx. resumeDataToGraphQL_heap data h = Inr (me, h @ hx)
           \<and> snapshot lo 5 (h @ hx) me = Some (Me_value (resumeDataToGraphQL d))"
  using yields_resumeDataToGraphQL [OF assms, of 0]
  unfolding yields_def by (auto simp: eval_nat_numeral dest: spec [of _ "[]"])

lemma sample_heap_repr: "repr_ResumeData sample_heap (Ref 16) = Some sample_resume"
  by code_simp

text \<open>
  C10: on a heap in which the argument reads as a record, the projection returns
  normally; every cell that existed before the call is unchanged afterwards, so the
  argument, its lists included, reads as the same record; and the object returned,
  with every object and array it contains, lies in cells that the call has allocated.
\<close>

theorem C10_argument_untouched_result_new:
  assumes "repr_ResumeData h data = Some d"
  shows "\<exists>me h'. resumeDataToGraphQL_heap data h = Inr (me, h')
           \<and> take (length h) h' = h
           \<and> repr_ResumeData h' data = Some d
           \<and> snapshot (length h) 5 h' me = Some (Me_value (resumeDataToGraphQL d))"
proof -
  from projection_on_heap [OF assms, of "length h"] obtain me hx
    where "resumeDataToGraphQL_heap data h = Inr (me, h @ hx)"
      and "snapshot (length h) 5 (h @ hx) me = Some (Me_value (resumeDataToGraphQL d))"
    by auto
  moreover from assms have "repr_ResumeData (h @ hx) data = Some d"
    by (rule repr_ResumeData_append)
  ultimately show ?thesis by auto
qed

theorem C10_argument_untouched_result_new_witness:
  "repr_ResumeData sample_heap (Ref 16) = Some sample_resume
   \<and> (\<exists>me h'. resumeDataToGraphQL_heap (Ref 16) sample_heap = Inr (me, h')
         \<and> take 17 h' = sample_heap
         \<and> repr_ResumeData h' (Ref 16) = Some sample_resume
         \<and> snapshot 17 5 h' me = Some (Me_value (resumeDataToGraphQL sample_resume)))"
proof -
  have "length sample_heap = 17"
    by (simp add: sample_heap_def)
  with C10_argument_untouched_result_new [OF sample_heap_repr] sample_heap_repr
  show ?thesis by simp
qed

text \<open>
  C7: two runs of the projection on the same record return structurally equal
  results, whichever heaps they run on and wherever the record lies in them; in
  particular a second call on the same argument, on the heap the first call has left,
  returns a new object with the structure of the first. The structure is the
  projection of the record and of nothing else.
\<close>

theorem C7_same_record_same_output:
  assumes "repr_ResumeData h data = Some d" and "repr_ResumeData h' data' = Some d"
  shows "(\<exists>me h1 me' h1'.
            resumeDataToGraphQL_heap data h = Inr (me, h1)
            \<and> resumeDataToGraphQL_heap data' h' = Inr (me', h1')
            \<and> snapshot 0 5 h1 me = Some (Me_value (resumeDataToGraphQL d))
            \<and> snapshot 0 5 h1' me' = snapshot 0 5 h1 me)
         \<and> (\<exists>me1 h1 me2 h2.
            resumeDataToGraphQL_heap data h = Inr (me1, h1)
            \<and> resumeDataToGraphQL_heap data h1 = Inr (me2, h2)
            \<and> me2 \<noteq> me1
            \<and> snapshot 0 5 h2 me1 = Some (Me_value (resumeDataToGraphQL d))
            \<and> snapshot 0 5 h2 me2 = snapshot 0 5 h2 me1)"
proof -
  from projection_on_heap [OF assms(1), of 0] obtain me hx
    where run: "resumeDataToGraphQL_heap data h = Inr (me, h @ hx)"
      and snap: "snapshot 0 5 (h @ hx) me = Some (Me_value (resumeDataToGraphQL d))"
    by auto
  from projection_on_heap [OF assms(2), of 0] obtain me' hx'
    where run': "resumeDataToGraphQL_heap data' h' = Inr (me', h' @ hx')"
      and snap': "snapshot 0 5 (h' @ hx') me' = Some (Me_value (resumeDataToGraphQL d))"
    by auto
  from assms(1) have again: "repr_ResumeData (h @ hx) data = Some d"
    by (rule repr_ResumeData_append)
  from projection_on_heap [OF again, of "length (h @ hx)"] obtain me2 hy
    where run2: "resumeDataToGraphQL_heap data (h @ hx) = Inr (me2, (h @ hx) @ hy)"
      and fresh2: "snapshot (length (h @ hx)) 5 ((h @ hx) @ hy) me2
                     = Some (Me_value (resumeDataToGraphQL d))"
    by auto
  from projection_on_heap [OF again, of 0] run2
  have snap2: "snapshot 0 5 ((h @ hx) @ hy) me2 = Some (Me_value (resumeDataToGraphQL d))"
    by auto
  from snap have snap1: "snapshot 0 5 ((h @ hx) @ hy) me = Some (Me_value (resumeDataToGraphQL d))"
    by (rule snapshot_append)
  have "me2 \<noteq> me"
  proof
    assume same: "me2 = me"
    from snap obtain a where a: "me = Ref a" and "a < length (h @ hx)"
      by (cases me) (auto simp: Me_value_def eval_nat_numeral split: if_splits)
    with fresh2 same show False
      by (auto simp: eval_nat_numeral split: if_splits)
  qed
  with run run' run2 snap snap' snap1 snap2 show ?thesis
    by auto
qed

theorem C7_same_record_same_output_witness:
  "repr_ResumeData sample_heap (Ref 16) = Some sample_resume
   \<and> repr_ResumeData (sample_heap @ [Object [(''other'', Ref 3)]]) (Ref 16) = Some sample_resume
   \<and> (\<exists>me h1 me' h1'.
         resumeDataToGraphQL_heap (Ref 16) sample_heap = Inr (me, h1)
         \<and> resumeDataToGraphQL_heap (Ref 16) (sample_heap @ [Object [(''other'', Ref 3)]])
             = Inr (me', h1')
         \<and> snapshot 0 5 h1 me = Some (Me_value (resumeDataToGraphQL sample_resume))
         \<and> snapshot 0 5 h1' me' = snapshot 0 5 h1 me)"
proof -
  have other: "repr_ResumeData (sample_heap @ [Object [(''other'', Ref 3)]]) (Ref 16)
                 = Some sample_resume"
    by code_simp
  from C7_same_record_same_output [OF sample_heap_repr other] sample_heap_repr other
  show ?thesis by blast
qed

subsection \<open>An entry that is not of the interface\<close>

text \<open>
  The well-formedness of the argument is needed. A project entry with the properties
  of the entries of \<open>src/data/resume-data.tsx\<close> (\<open>title\<close>, \<open>techStack\<close>,
  \<open>description\<close>, \<open>link\<close>) has no \<open>technologies\<close>: \<open>Array.from(p.technologies)\<close> is
  \<open>Array.from(undefined)\<close>, which raises.
\<close>

lemma project_without_technologies_raises:
  "project_heap (Ref 2)
     [ArrayCell [Prim (Text ''Social Impact''), Prim (Text ''Strategic Value Alignment'')],
      Object [(''label'', Prim (Text ''Human Act Prize'')),
              (''href'', Prim (Text ''https://www.humanactprize.org/''))],
      Object [(''title'', Prim (Text ''Human Act Prize 2024'')),
              (''techStack'', Ref 0),
              (''description'', Prim (Text ''Won the Human Act Prize.'')),
              (''link'', Ref 1)]]
   = Inl TypeError"
  by (simp add: project_heap_def literal_def bind_def return_def cell_at_def property_def)

section \<open>Properties of the Read API\<close>

lemma handler_ready:
  "GET production buildSchema serve request =
     Inr (serve \<lparr>schema = (''Query'', [(''me'', Object_type ''Me'', False)]) # type_defs,
                 introspection = (\<not> production),
                 includeStacktraceInErrorResponses = (\<not> production)\<rparr> request)"
  by (simp add: GET_def handler_def route_server_def route_schema_def buildSchema_def)

lemma POST_is_GET: "POST production build serve request = GET production build serve request"
  by (simp add: POST_def GET_def)


lemma validate_unknown_root:
  "root \<noteq> ''me'' \<Longrightarrow>
   validate ((''Query'', [(''me'', Object_type ''Me'', False)]) # type_defs) ''Query''
     (Field root subs) = [cannot_query root ''Query'']"
  by simp

lemma validate_me_unknownField:
  "validate ((''Query'', [(''me'', Object_type ''Me'', False)]) # type_defs) ''Query''
     (Field ''me'' [Field ''unknownField'' []]) = [cannot_query ''unknownField'' ''Me'']"
  by (simp add: type_defs_def)






text \<open>
  C5: a query that selects \<open>unknownField\<close> under the root field, whatever the root
  field is called, is answered by \<open>errors\<close> alone: one error, with the code
  \<open>GRAPHQL_VALIDATION_FAILED\<close>, and no \<open>data\<close>.
\<close>

theorem C5_unknown_field_fails_validation:
  "\<exists>msg. POST production buildSchema (apollo h RESUME_DATA)
              [Field root [Field ''unknownField'' []]]
            = Inr (Errors [GraphQLError msg ''GRAPHQL_VALIDATION_FAILED''])
        \<and> response_json (Errors [GraphQLError msg ''GRAPHQL_VALIDATION_FAILED''])
            = JObject [(''errors'',
                JArray [JObject [(''message'', JString msg),
                                 (''extensions'',
                                  JObject [(''code'', JString ''GRAPHQL_VALIDATION_FAILED'')])]])]"
proof (cases "root = ''me''")
  case True
  then show ?thesis
    by (simp add: POST_is_GET handler_ready apollo_def validate_me_unknownField cannot_query_def
        del: validate.simps)
next
  case False
  then show ?thesis
    by (simp add: POST_is_GET handler_ready apollo_def validate_unknown_root cannot_query_def
        del: validate.simps)
qed

lemma route_fails_with_the_fallback:
  assumes "build [MeResolver] = Inl error" and "build [] = Inl error'"
  shows "handler production build serve request = Inl error'"
  using assms by (simp add: handler_def route_server_def route_schema_def)

text \<open>
  C6: when the build of the schema from \<open>MeResolver\<close> fails, the route should answer
  every request with one fixed response. It does not. Its \<open>catch\<close> block logs the
  failure and builds again from no resolvers, a call outside any \<open>try\<close> that the schema
  builder refuses: the failure of the second build leaves the module, for \<open>GET\<close> and for
  \<open>POST\<close>, and there is no server and no handler to answer a request.
\<close>

theorem C6_failed_build_leaves_no_handler:
  assumes "build [MeResolver] = Inl error" and "build [] = buildSchema []"
  shows "GET production build serve request
           = Inl empty_resolvers
         \<and> POST production build serve request
           = Inl empty_resolvers
         \<and> fst (route_schema build) = [''Failed to build GraphQL schema:'']"
proof -
  from assms(2)
  have "build [] = Inl empty_resolvers"
    by (simp add: buildSchema_def)
  with assms(1) show ?thesis
    by (simp add: GET_def POST_def route_fails_with_the_fallback route_schema_def)
qed

theorem C6_failed_build_leaves_no_handler_witness:
  "(\<lambda>resolvers. if resolvers = [] then buildSchema resolvers
                  else Inl ''Cannot determine GraphQL output type'') [MeResolver]
     = Inl ''Cannot determine GraphQL output type''
   \<and> GET True (\<lambda>resolvers. if resolvers = [] then buildSchema resolvers
                            else Inl ''Cannot determine GraphQL output type'')
         (apollo guide_heap guide_RESUME_DATA) [Field ''me'' [Field ''name'' []]]
       = Inl empty_resolvers"
  using C6_failed_build_leaves_no_handler
    [of "\<lambda>resolvers. if resolvers = [] then buildSchema resolvers
                      else Inl ''Cannot determine GraphQL output type''"
        "''Cannot determine GraphQL output type''" True "apollo guide_heap guide_RESUME_DATA"
        "[Field ''me'' [Field ''name'' []]]"]
  by simp

end
